theory Spec2Isabelle
  imports Main "HOL-Library.Word"
begin

section \<open>Machine types of the adaptor\<close>

text \<open>
  The adaptor (\<^verbatim>\<open>src/extern/catalyst/CatalystAdaptor.c\<close>) is C code for an LP64 platform.
  \<^verbatim>\<open>int\<close> and \<^verbatim>\<open>unsigned int\<close> are 32-bit words (the source says so about the counts:
  "Also changed to 32 from 64"), pointers are 64-bit addresses.  A \<^verbatim>\<open>double\<close> is carried
  as its 64-bit pattern: the adaptor never computes with one, it only passes it on.
\<close>

type_synonym c_int = "32 word"
type_synonym c_uint = "32 word"
type_synonym ptr = "64 word"
type_synonym byte = "8 word"
type_synonym conduit_int64 = "64 word"
type_synonym conduit_float64 = "64 word"
type_synonym conduit_index_t = "64 word"

text \<open>\<^verbatim>\<open>typedef struct CatalystData\<close>, lines 9 to 22, field by field.\<close>

record CatalystData =
  dimensions :: c_int
  NumberOfPoints :: c_uint
  NumberOfCells :: c_uint
  Cell2VertexSize :: c_uint
  Points :: ptr
  Cells :: ptr
  velx :: ptr
  vely :: ptr
  velz :: ptr
  Pressure :: ptr

text \<open>
  \<^verbatim>\<open>sizeof(double)\<close>, as a \<^verbatim>\<open>size_t\<close>.  Conduit's \<^verbatim>\<open>float64\<close> is the C \<^verbatim>\<open>double\<close>
  of 8 bytes; the specification gives the same figure (element size 8 bytes).
\<close>

definition sizeof_double :: "64 word" where
  "sizeof_double = 8"

section \<open>The Conduit node interface\<close>

text \<open>
  \<^verbatim>\<open>catalyst.h\<close> and the Conduit C interface are a library outside the repository.  The
  adaptor only calls it, so the library is modelled at its interface: a node is a tree
  addressed by paths with \<^verbatim>\<open>/\<close> as separator, a leaf holds a value or the description of
  a piece of external memory, and children keep the order in which they were created.
\<close>

text \<open>
  Modelled from the spec: the macro \<^verbatim>\<open>CONDUIT_ENDIANNESS_DEFAULT_ID\<close> of Conduit's headers
  is the "default-endianness" tag of the external arrays.
\<close>

datatype endianness =
    CONDUIT_ENDIANNESS_DEFAULT_ID
  | CONDUIT_ENDIANNESS_BIG_ID
  | CONDUIT_ENDIANNESS_LITTLE_ID

datatype dtype = FLOAT64 | INT64

text \<open>
  What \<^verbatim>\<open>conduit_node_set_path_external_float64_ptr_detailed\<close> is told about external
  memory: the arguments \<^verbatim>\<open>data\<close>, \<^verbatim>\<open>num_elements\<close>, \<^verbatim>\<open>offset\<close>, \<^verbatim>\<open>stride\<close>,
  \<^verbatim>\<open>element_bytes\<close> and \<^verbatim>\<open>endianness\<close>, in this order.  No byte is copied.
\<close>

record view =
  data_ptr :: ptr
  num_elements :: conduit_index_t
  offset :: conduit_index_t
  stride :: conduit_index_t
  element_bytes :: conduit_index_t
  endianness_id :: endianness

type_synonym handle = nat

datatype leaf =
    Int64 conduit_int64
  | Float64 conduit_float64
  | Char8_str string
  | External dtype view
  | External_node handle

datatype node =
    Empty
  | Leaf leaf
  | Object "(string \<times> node) list"

text \<open>A path is cut at every \<^verbatim>\<open>/\<close>.\<close>

fun split_at_slash :: "string \<Rightarrow> string \<Rightarrow> string list" where
  "split_at_slash acc [] = [rev acc]"
| "split_at_slash acc (c # cs) =
     (if c = CHR ''/'' then rev acc # split_at_slash [] cs
      else split_at_slash (c # acc) cs)"

definition split_path :: "string \<Rightarrow> string list" where
  "split_path p = split_at_slash [] p"

fun children :: "node \<Rightarrow> (string \<times> node) list" where
  "children (Object kvs) = kvs"
| "children Empty = []"
| "children (Leaf v) = []"

text \<open>
  The child named \<open>k\<close> is changed in place when it exists, and appended (starting from
  an empty node) when it does not.
\<close>

fun upd_child :: "string \<Rightarrow> (node \<Rightarrow> node) \<Rightarrow> (string \<times> node) list \<Rightarrow> (string \<times> node) list" where
  "upd_child k f [] = [(k, f Empty)]"
| "upd_child k f ((k', c) # kvs) =
     (if k = k' then (k', f c) # kvs else (k', c) # upd_child k f kvs)"

text \<open>
  Setting a path walks down the components, creating the objects on the way, and
  overwrites the node at the end of the path with the leaf.
\<close>

primrec put :: "string list \<Rightarrow> leaf \<Rightarrow> node \<Rightarrow> node" where
  "put [] v = (\<lambda>n. Leaf v)"
| "put (k # ks) v = (\<lambda>n. Object (upd_child k (put ks v) (children n)))"

primrec fetch_components :: "string list \<Rightarrow> node \<Rightarrow> node option" where
  "fetch_components [] n = Some n"
| "fetch_components (k # ks) n =
     (case map_of (children n) k of
        None \<Rightarrow> None
      | Some c \<Rightarrow> fetch_components ks c)"

definition fetch :: "string \<Rightarrow> node \<Rightarrow> node option" where
  "fetch p n = fetch_components (split_path p) n"

text \<open>The names of the children of the node at a path, in creation order.\<close>

definition child_names :: "string \<Rightarrow> node \<Rightarrow> string list" where
  "child_names p n = (case fetch p n of None \<Rightarrow> [] | Some c \<Rightarrow> map fst (children c))"

text \<open>Every leaf of a tree with the components of its path, in creation order.\<close>

fun leaves :: "node \<Rightarrow> (string list \<times> leaf) list" where
  "leaves Empty = []"
| "leaves (Leaf v) = [([], v)]"
| "leaves (Object kvs) =
     concat (map (\<lambda>kc. map (\<lambda>pv. (fst kc # fst pv, snd pv)) (leaves (snd kc))) kvs)"

text \<open>The descriptions of external memory in a tree.\<close>

fun view_of :: "leaf \<Rightarrow> view list" where
  "view_of (External t v) = [v]"
| "view_of (Int64 i) = []"
| "view_of (Float64 x) = []"
| "view_of (Char8_str s) = []"
| "view_of (External_node h) = []"

definition views :: "node \<Rightarrow> view list" where
  "views n = concat (map (\<lambda>pv. view_of (snd pv)) (leaves n))"

section \<open>The process: node store, standard output, pipeline, simulation memory\<close>

datatype entry_point = Initialize | Execute | Finalize

text \<open>
  What the external pipeline is handed by one call of an entry point: the node passed
  (by handle) and the node store at that moment, through which a node attached with
  \<^verbatim>\<open>conduit_node_set_path_external_node\<close> is reached.
\<close>

record submission =
  entry :: entry_point
  params :: handle
  store :: "handle \<Rightarrow> node option"

record world =
  nodes :: "handle \<Rightarrow> node option"
  fresh :: handle
  stdout :: string
  submitted :: "submission list"
  memory :: "ptr \<Rightarrow> byte"
  allocated :: "ptr set"

text \<open>
  The external pipeline is a parameter: the value of the enumerator
  \<^verbatim>\<open>catalyst_status_ok\<close> (declared in \<^verbatim>\<open>catalyst.h\<close>), and the status it answers,
  which may depend on every submission made so far.
\<close>

type_synonym catalyst_status = "32 word"

record pipeline =
  catalyst_status_ok :: catalyst_status
  respond :: "submission list \<Rightarrow> catalyst_status"

text \<open>A call either returns, or ends the process with \<^verbatim>\<open>exit\<close>.\<close>

datatype outcome = Returned world | Exited c_int world

fun final :: "outcome \<Rightarrow> world" where
  "final (Returned w) = w"
| "final (Exited c w) = w"

text \<open>Handles are handed out in increasing order; a store is well formed when no handle
  that is still to be handed out is live.\<close>

definition wf_world :: "world \<Rightarrow> bool" where
  "wf_world w \<longleftrightarrow> (\<forall>h. fresh w \<le> h \<longrightarrow> nodes w h = None)"

definition conduit_node_create :: "world \<Rightarrow> handle \<times> world" where
  "conduit_node_create w =
     (fresh w, w\<lparr>nodes := (nodes w)(fresh w \<mapsto> Empty), fresh := Suc (fresh w)\<rparr>)"

text \<open>Destroying a node releases the node only: external memory it describes stays.\<close>

definition conduit_node_destroy :: "handle \<Rightarrow> world \<Rightarrow> world" where
  "conduit_node_destroy h w = w\<lparr>nodes := (nodes w)(h := None)\<rparr>"

text \<open>Setting a path of a node that is not live is undefined in C; the model leaves the
  store as it is.\<close>

definition set_path :: "handle \<Rightarrow> string \<Rightarrow> leaf \<Rightarrow> world \<Rightarrow> world" where
  "set_path h p v w =
     (case nodes w h of
        None \<Rightarrow> w
      | Some n \<Rightarrow> w\<lparr>nodes := (nodes w)(h \<mapsto> put (split_path p) v n)\<rparr>)"

definition conduit_node_set_path_char8_str :: "handle \<Rightarrow> string \<Rightarrow> string \<Rightarrow> world \<Rightarrow> world" where
  "conduit_node_set_path_char8_str h p s = set_path h p (Char8_str s)"

definition conduit_node_set_path_int64 :: "handle \<Rightarrow> string \<Rightarrow> conduit_int64 \<Rightarrow> world \<Rightarrow> world" where
  "conduit_node_set_path_int64 h p i = set_path h p (Int64 i)"

definition conduit_node_set_path_float64 :: "handle \<Rightarrow> string \<Rightarrow> conduit_float64 \<Rightarrow> world \<Rightarrow> world" where
  "conduit_node_set_path_float64 h p x = set_path h p (Float64 x)"

definition conduit_node_set_path_external_float64_ptr_detailed ::
  "handle \<Rightarrow> string \<Rightarrow> ptr \<Rightarrow> conduit_index_t \<Rightarrow> conduit_index_t \<Rightarrow> conduit_index_t \<Rightarrow>
   conduit_index_t \<Rightarrow> endianness \<Rightarrow> world \<Rightarrow> world" where
  "conduit_node_set_path_external_float64_ptr_detailed h p d n off str eb en =
     set_path h p (External FLOAT64
       \<lparr>data_ptr = d, num_elements = n, offset = off, stride = str,
        element_bytes = eb, endianness_id = en\<rparr>)"

text \<open>The short forms describe a dense array: offset 0, stride and element size the size
  of the element type, default endianness.\<close>

definition conduit_node_set_path_external_float64_ptr ::
  "handle \<Rightarrow> string \<Rightarrow> ptr \<Rightarrow> conduit_index_t \<Rightarrow> world \<Rightarrow> world" where
  "conduit_node_set_path_external_float64_ptr h p d n =
     set_path h p (External FLOAT64
       \<lparr>data_ptr = d, num_elements = n, offset = 0, stride = 8,
        element_bytes = 8, endianness_id = CONDUIT_ENDIANNESS_DEFAULT_ID\<rparr>)"

definition conduit_node_set_path_external_int64_ptr ::
  "handle \<Rightarrow> string \<Rightarrow> ptr \<Rightarrow> conduit_index_t \<Rightarrow> world \<Rightarrow> world" where
  "conduit_node_set_path_external_int64_ptr h p d n =
     set_path h p (External INT64
       \<lparr>data_ptr = d, num_elements = n, offset = 0, stride = 8,
        element_bytes = 8, endianness_id = CONDUIT_ENDIANNESS_DEFAULT_ID\<rparr>)"

definition conduit_node_set_path_external_node :: "handle \<Rightarrow> string \<Rightarrow> handle \<Rightarrow> world \<Rightarrow> world" where
  "conduit_node_set_path_external_node h p m = set_path h p (External_node m)"

text \<open>An entry point of the pipeline records the submission and answers a status.\<close>

definition catalyst_call :: "pipeline \<Rightarrow> entry_point \<Rightarrow> handle \<Rightarrow> world \<Rightarrow> catalyst_status \<times> world" where
  "catalyst_call P e h w =
     (let tr = submitted w @ [\<lparr>entry = e, params = h, store = nodes w\<rparr>]
      in (respond P tr, w\<lparr>submitted := tr\<rparr>))"

definition catalyst_initialize :: "pipeline \<Rightarrow> handle \<Rightarrow> world \<Rightarrow> catalyst_status \<times> world" where
  "catalyst_initialize P = catalyst_call P Initialize"

definition catalyst_execute :: "pipeline \<Rightarrow> handle \<Rightarrow> world \<Rightarrow> catalyst_status \<times> world" where
  "catalyst_execute P = catalyst_call P Execute"

definition catalyst_finalize :: "pipeline \<Rightarrow> handle \<Rightarrow> world \<Rightarrow> catalyst_status \<times> world" where
  "catalyst_finalize P = catalyst_call P Finalize"

subsection \<open>\<^verbatim>\<open>printf\<close> with one \<^verbatim>\<open>%d\<close>\<close>

definition digit_char :: "nat \<Rightarrow> char" where
  "digit_char d = char_of (48 + d)"

fun show_nat :: "nat \<Rightarrow> string" where
  "show_nat n = (if n < 10 then [digit_char n] else show_nat (n div 10) @ [digit_char (n mod 10)])"

definition show_int :: "int \<Rightarrow> string" where
  "show_int i = (if i < 0 then CHR ''-'' # show_nat (nat (- i)) else show_nat (nat i))"

fun format_d :: "string \<Rightarrow> int \<Rightarrow> string" where
  "format_d (c1 # c2 # cs) i =
     (if c1 = CHR ''%'' \<and> c2 = CHR ''d'' then show_int i @ cs
      else c1 # format_d (c2 # cs) i)"
| "format_d [c] i = [c]"
| "format_d [] i = []"

definition printf_d :: "string \<Rightarrow> c_int \<Rightarrow> world \<Rightarrow> world" where
  "printf_d fmt i w = w\<lparr>stdout := stdout w @ format_d fmt (sint i)\<rparr>"

definition newline :: string where
  "newline = [CHR 0x0A]"

section \<open>The three entry points of the adaptor\<close>

text \<open>\<^verbatim>\<open>do_catalyst_initialization\<close>, lines 29 to 43.\<close>

definition do_catalyst_initialization :: "pipeline \<Rightarrow> world \<Rightarrow> outcome" where
  "do_catalyst_initialization P w0 =
     (let (catalyst_init_params, w) = conduit_node_create w0;
          w = conduit_node_set_path_char8_str catalyst_init_params
                ''catalyst/scripts/script0'' ''catalyst_pipeline.py'' w;
          w = conduit_node_set_path_char8_str catalyst_init_params
                ''catalyst_load/implementation'' ''paraview'' w;
          w = conduit_node_set_path_char8_str catalyst_init_params
                ''catalyst_load/search_paths/paraview''
                ''/home/uqngibbo/source/ParaView/build/lib/catalyst'' w;
          (err, w) = catalyst_initialize P catalyst_init_params w;
          w = conduit_node_destroy catalyst_init_params w
      in if err \<noteq> catalyst_status_ok P
         then Returned (printf_d (''Failed to initialize Catalyst: %d'' @ newline) err w)
         else Returned w)"

text \<open>\<^verbatim>\<open>do_catalyt_execute\<close>, lines 50 to 142.  The block under \<^verbatim>\<open>#if 0\<close> is not compiled.\<close>

definition do_catalyt_execute :: "pipeline \<Rightarrow> c_int \<Rightarrow> conduit_float64 \<Rightarrow> CatalystData \<Rightarrow> world \<Rightarrow> outcome" where
  "do_catalyt_execute P cycle time data w0 =
     (let (catalyst_exec_params, w) = conduit_node_create w0;
          w = conduit_node_set_path_int64 catalyst_exec_params
                ''catalyst/state/timestep'' (scast cycle) w;
          w = conduit_node_set_path_float64 catalyst_exec_params
                ''catalyst/state/time'' time w;
          w = conduit_node_set_path_char8_str catalyst_exec_params
                ''catalyst/channels/grid/type'' ''mesh'' w;
          (mesh, w) = conduit_node_create w;
          w = conduit_node_set_path_char8_str mesh ''coordsets/coords/type'' ''explicit'' w;
          w = conduit_node_set_path_char8_str mesh ''coordsets/coords/type'' ''explicit'' w;
          w = conduit_node_set_path_external_float64_ptr_detailed mesh
                ''coordsets/coords/values/x'' (Points data) (ucast (NumberOfPoints data)) 0
                (3 * sizeof_double) sizeof_double CONDUIT_ENDIANNESS_DEFAULT_ID w;
          w = conduit_node_set_path_external_float64_ptr_detailed mesh
                ''coordsets/coords/values/y'' (Points data) (ucast (NumberOfPoints data))
                (1 * sizeof_double)
                (3 * sizeof_double) sizeof_double CONDUIT_ENDIANNESS_DEFAULT_ID w;
          w = conduit_node_set_path_external_float64_ptr_detailed mesh
                ''coordsets/coords/values/z'' (Points data) (ucast (NumberOfPoints data))
                (2 * sizeof_double)
                (3 * sizeof_double) sizeof_double CONDUIT_ENDIANNESS_DEFAULT_ID w;
          w = conduit_node_set_path_char8_str mesh ''topologies/mesh/type'' ''unstructured'' w;
          w = conduit_node_set_path_char8_str mesh ''topologies/mesh/coordset'' ''coords'' w;
          shape = (if dimensions data = 2
                   then Inr (conduit_node_set_path_char8_str mesh
                               ''topologies/mesh/elements/shape'' ''quad'' w)
                   else if dimensions data = 3
                   then Inr (conduit_node_set_path_char8_str mesh
                               ''topologies/mesh/elements/shape'' ''hex'' w)
                   else Inl (printf_d ''Error, incorrect dimensions %d '' (dimensions data) w))
      in case shape of
           Inl w \<Rightarrow> Exited 1 w
         | Inr w \<Rightarrow>
           (let w = conduit_node_set_path_external_int64_ptr mesh
                      ''topologies/mesh/elements/connectivity'' (Cells data)
                      (ucast (Cell2VertexSize data)) w;
                w = conduit_node_set_path_char8_str mesh ''fields/velx/association'' ''element'' w;
                w = conduit_node_set_path_char8_str mesh ''fields/velx/topology'' ''mesh'' w;
                w = conduit_node_set_path_char8_str mesh ''fields/velx/volume_dependent'' ''false'' w;
                w = conduit_node_set_path_external_float64_ptr mesh
                      ''fields/velx/values'' (velx data) (ucast (NumberOfCells data)) w;
                w = conduit_node_set_path_char8_str mesh ''fields/vely/association'' ''element'' w;
                w = conduit_node_set_path_char8_str mesh ''fields/vely/topology'' ''mesh'' w;
                w = conduit_node_set_path_char8_str mesh ''fields/vely/volume_dependent'' ''false'' w;
                w = conduit_node_set_path_external_float64_ptr mesh
                      ''fields/vely/values'' (vely data) (ucast (NumberOfCells data)) w;
                w = conduit_node_set_path_char8_str mesh ''fields/velz/association'' ''element'' w;
                w = conduit_node_set_path_char8_str mesh ''fields/velz/topology'' ''mesh'' w;
                w = conduit_node_set_path_char8_str mesh ''fields/velz/volume_dependent'' ''false'' w;
                w = conduit_node_set_path_external_float64_ptr mesh
                      ''fields/velz/values'' (velz data) (ucast (NumberOfCells data)) w;
                w = conduit_node_set_path_char8_str mesh ''fields/pressure/association'' ''element'' w;
                w = conduit_node_set_path_char8_str mesh ''fields/pressure/topology'' ''mesh'' w;
                w = conduit_node_set_path_char8_str mesh ''fields/pressure/volume_dependent'' ''false'' w;
                w = conduit_node_set_path_external_float64_ptr mesh
                      ''fields/pressure/values'' (Pressure data) (ucast (NumberOfCells data)) w;
                w = conduit_node_set_path_external_node catalyst_exec_params
                      ''catalyst/channels/grid/data'' mesh w;
                (err, w) = catalyst_execute P catalyst_exec_params w;
                w = (if err \<noteq> catalyst_status_ok P
                     then printf_d (''Failed to execute Catalyst: %d'' @ newline) err w
                     else w);
                w = conduit_node_destroy catalyst_exec_params w;
                w = conduit_node_destroy mesh w
            in Returned w))"

text \<open>\<^verbatim>\<open>do_catalyt_finalization\<close>, lines 149 to 158.\<close>

definition do_catalyt_finalization :: "pipeline \<Rightarrow> world \<Rightarrow> outcome" where
  "do_catalyt_finalization P w0 =
     (let (catalyst_fini_params, w) = conduit_node_create w0;
          (err, w) = catalyst_finalize P catalyst_fini_params w;
          w = (if err \<noteq> catalyst_status_ok P
               then printf_d (''Failed to execute Catalyst: %d'' @ newline) err w
               else w);
          w = conduit_node_destroy catalyst_fini_params w
      in Returned w)"

section \<open>Reading a submission and external memory\<close>

text \<open>
  A node attached with \<^verbatim>\<open>conduit_node_set_path_external_node\<close> is held by reference: the
  pipeline reaches it through the store of the submission.
\<close>

definition attached :: "submission \<Rightarrow> string \<Rightarrow> node option" where
  "attached s p =
     (case store s (params s) of
        None \<Rightarrow> None
      | Some n \<Rightarrow>
          (case fetch p n of
             Some (Leaf (External_node m)) \<Rightarrow> store s m
           | _ \<Rightarrow> None))"

text \<open>
  The mesh description of one call of \<^verbatim>\<open>do_catalyt_execute\<close> started in the world \<open>w0\<close>:
  the node its submission carries at the data path of the channel when the call returned,
  and the second node the call created (\<^verbatim>\<open>mesh\<close>) when the process exited instead.
\<close>

definition built_mesh :: "world \<Rightarrow> outcome \<Rightarrow> node option" where
  "built_mesh w0 r =
     (case r of
        Returned w \<Rightarrow> attached (last (submitted w)) ''catalyst/channels/grid/data''
      | Exited e w \<Rightarrow> nodes w (Suc (fresh w0)))"

text \<open>
  Element \<open>i\<close> of a view starts \<open>offset + i * stride\<close> bytes after the data pointer and is
  \<open>element_bytes\<close> long; \<^verbatim>\<open>p[j]\<close> for a \<^verbatim>\<open>double* p\<close> starts \<open>j * sizeof(double)\<close> bytes
  after \<open>p\<close>.  Addresses wrap around at 64 bits.
\<close>

definition load_bytes :: "(ptr \<Rightarrow> byte) \<Rightarrow> ptr \<Rightarrow> nat \<Rightarrow> byte list" where
  "load_bytes mem a n = map (\<lambda>k. mem (a + of_nat k)) [0..<n]"

definition view_element :: "(ptr \<Rightarrow> byte) \<Rightarrow> view \<Rightarrow> nat \<Rightarrow> byte list" where
  "view_element mem v i =
     load_bytes mem (data_ptr v + offset v + of_nat i * stride v) (unat (element_bytes v))"

definition c_double_at :: "(ptr \<Rightarrow> byte) \<Rightarrow> ptr \<Rightarrow> nat \<Rightarrow> byte list" where
  "c_double_at mem p j = load_bytes mem (p + of_nat j * sizeof_double) (unat sizeof_double)"

text \<open>
  From the specification (data model, and testable property 3): the number of vertices of
  a cell, 4 for a quad (two dimensions) and 8 for a hex (three dimensions), and the
  consistency of a snapshot: valid dimensions, and a connectivity of
  \<open>cellCount \<times> verticesPerCell\<close> entries.
\<close>

definition verticesPerCell :: "c_int \<Rightarrow> nat option" where
  "verticesPerCell dims = (if dims = 2 then Some 4 else if dims = 3 then Some 8 else None)"

definition internally_consistent :: "CatalystData \<Rightarrow> bool" where
  "internally_consistent d =
     (case verticesPerCell (dimensions d) of
        None \<Rightarrow> False
      | Some k \<Rightarrow> unat (Cell2VertexSize d) = unat (NumberOfCells d) * k)"

section \<open>Closed forms of the states a call goes through\<close>

text \<open>
  The definitions of this section are not part of the model: they name the worlds and
  trees that the lemmas below prove the calls to produce.
\<close>

definition one_node :: "world \<Rightarrow> node \<Rightarrow> world" where
  "one_node w a = w\<lparr>nodes := (nodes w)(fresh w \<mapsto> a), fresh := Suc (fresh w)\<rparr>"

definition two_nodes :: "world \<Rightarrow> node \<Rightarrow> node \<Rightarrow> world" where
  "two_nodes w a b =
     w\<lparr>nodes := (nodes w)(fresh w \<mapsto> a, Suc (fresh w) \<mapsto> b), fresh := Suc (Suc (fresh w))\<rparr>"

definition dense :: "ptr \<Rightarrow> c_uint \<Rightarrow> view" where
  "dense p n = \<lparr>data_ptr = p, num_elements = ucast n, offset = 0, stride = 8,
       element_bytes = 8, endianness_id = CONDUIT_ENDIANNESS_DEFAULT_ID\<rparr>"

definition coord_view :: "CatalystData \<Rightarrow> conduit_index_t \<Rightarrow> view" where
  "coord_view d off =
     \<lparr>data_ptr = Points d, num_elements = ucast (NumberOfPoints d), offset = off,
      stride = 24, element_bytes = 8, endianness_id = CONDUIT_ENDIANNESS_DEFAULT_ID\<rparr>"

definition field_tree :: "ptr \<Rightarrow> c_uint \<Rightarrow> node" where
  "field_tree p n = Object
     [(''association'', Leaf (Char8_str ''element'')),
      (''topology'', Leaf (Char8_str ''mesh'')),
      (''volume_dependent'', Leaf (Char8_str ''false'')),
      (''values'', Leaf (External FLOAT64 (dense p n)))]"

definition coords_tree :: "CatalystData \<Rightarrow> node" where
  "coords_tree d = Object
     [(''coords'', Object
        [(''type'', Leaf (Char8_str ''explicit'')),
         (''values'', Object
            [(''x'', Leaf (External FLOAT64 (coord_view d 0))),
             (''y'', Leaf (External FLOAT64 (coord_view d 8))),
             (''z'', Leaf (External FLOAT64 (coord_view d 16)))])])]"

definition partial_mesh_tree :: "CatalystData \<Rightarrow> node" where
  "partial_mesh_tree d = Object
     [(''coordsets'', coords_tree d),
      (''topologies'', Object
        [(''mesh'', Object
           [(''type'', Leaf (Char8_str ''unstructured'')),
            (''coordset'', Leaf (Char8_str ''coords''))])])]"

definition mesh_tree :: "CatalystData \<Rightarrow> string \<Rightarrow> node" where
  "mesh_tree d shape = Object
     [(''coordsets'', coords_tree d),
      (''topologies'', Object
        [(''mesh'', Object
           [(''type'', Leaf (Char8_str ''unstructured'')),
            (''coordset'', Leaf (Char8_str ''coords'')),
            (''elements'', Object
               [(''shape'', Leaf (Char8_str shape)),
                (''connectivity'',
                 Leaf (External INT64 (dense (Cells d) (Cell2VertexSize d))))])])]),
      (''fields'', Object
        [(''velx'', field_tree (velx d) (NumberOfCells d)),
         (''vely'', field_tree (vely d) (NumberOfCells d)),
         (''velz'', field_tree (velz d) (NumberOfCells d)),
         (''pressure'', field_tree (Pressure d) (NumberOfCells d))])]"

definition state_tree :: "c_int \<Rightarrow> conduit_float64 \<Rightarrow> string \<times> node" where
  "state_tree c t =
     (''state'', Object
        [(''timestep'', Leaf (Int64 (scast c))),
         (''time'', Leaf (Float64 t))])"

definition partial_params_tree :: "c_int \<Rightarrow> conduit_float64 \<Rightarrow> node" where
  "partial_params_tree c t = Object
     [(''catalyst'', Object
        [state_tree c t,
         (''channels'', Object
           [(''grid'', Object
              [(''type'', Leaf (Char8_str ''mesh''))])])])]"

definition exec_params_tree :: "c_int \<Rightarrow> conduit_float64 \<Rightarrow> handle \<Rightarrow> node" where
  "exec_params_tree c t m = Object
     [(''catalyst'', Object
        [state_tree c t,
         (''channels'', Object
           [(''grid'', Object
              [(''type'', Leaf (Char8_str ''mesh'')),
               (''data'', Leaf (External_node m))])])])]"

definition init_params_tree :: node where
  "init_params_tree = Object
     [(''catalyst'', Object
        [(''scripts'', Object
           [(''script0'', Leaf (Char8_str ''catalyst_pipeline.py''))])]),
      (''catalyst_load'', Object
        [(''implementation'', Leaf (Char8_str ''paraview'')),
         (''search_paths'', Object
           [(''paraview'',
             Leaf (Char8_str ''/home/uqngibbo/source/ParaView/build/lib/catalyst''))])])]"

definition shape_name :: "CatalystData \<Rightarrow> string" where
  "shape_name d = (if dimensions d = 2 then ''quad'' else ''hex'')"

definition execute_submission :: "world \<Rightarrow> c_int \<Rightarrow> conduit_float64 \<Rightarrow> CatalystData \<Rightarrow> submission" where
  "execute_submission w c t d =
     \<lparr>entry = Execute, params = fresh w,
      store = (nodes w)(fresh w \<mapsto> exec_params_tree c t (Suc (fresh w)),
                        Suc (fresh w) \<mapsto> mesh_tree d (shape_name d))\<rparr>"

definition initialize_submission :: "world \<Rightarrow> submission" where
  "initialize_submission w =
     \<lparr>entry = Initialize, params = fresh w, store = (nodes w)(fresh w \<mapsto> init_params_tree)\<rparr>"

definition finalize_submission :: "world \<Rightarrow> submission" where
  "finalize_submission w =
     \<lparr>entry = Finalize, params = fresh w, store = (nodes w)(fresh w \<mapsto> Empty)\<rparr>"

text \<open>What a call prints after the pipeline answered the history \<open>tr\<close>.\<close>

definition diagnostic :: "pipeline \<Rightarrow> submission list \<Rightarrow> string \<Rightarrow> string" where
  "diagnostic P tr msg =
     (if respond P tr \<noteq> catalyst_status_ok P
      then msg @ show_int (sint (respond P tr)) @ newline
      else [])"

text \<open>The world a call returns in: it created \<open>k\<close> nodes and destroyed them, made the
  submission \<open>s\<close>, and printed its diagnostic.\<close>

definition returned_world :: "pipeline \<Rightarrow> world \<Rightarrow> nat \<Rightarrow> submission \<Rightarrow> string \<Rightarrow> world" where
  "returned_world P w k s msg =
     w\<lparr>nodes := (\<lambda>h. if fresh w \<le> h \<and> h < fresh w + k then None else nodes w h),
       fresh := fresh w + k,
       stdout := stdout w @ diagnostic P (submitted w @ [s]) msg,
       submitted := submitted w @ [s]\<rparr>"

section \<open>Concrete inputs\<close>

text \<open>
  The end-to-end scenario of the specification: one quad on four points, at fixed
  addresses, in a process that has created no node yet.  The simulation memory is given
  a content under which the bytes at different addresses differ.
\<close>

definition quad_snapshot :: CatalystData where
  "quad_snapshot =
     \<lparr>dimensions = 2, NumberOfPoints = 4, NumberOfCells = 1, Cell2VertexSize = 4,
      Points = 0x1000, Cells = 0x2000, velx = 0x3000, vely = 0x3100, velz = 0x3200,
      Pressure = 0x3300\<rparr>"

definition hex_snapshot :: CatalystData where
  "hex_snapshot = quad_snapshot\<lparr>dimensions := 3, NumberOfPoints := 8, Cell2VertexSize := 8\<rparr>"

definition bad_snapshot :: CatalystData where
  "bad_snapshot = quad_snapshot\<lparr>dimensions := 5\<rparr>"

definition world0 :: world where
  "world0 =
     \<lparr>nodes = (\<lambda>h. None), fresh = 0, stdout = [], submitted = [],
      memory = (\<lambda>a. ucast a), allocated = {0x1000, 0x2000, 0x3000, 0x3100, 0x3200, 0x3300}\<rparr>"

text \<open>A pipeline whose \<^verbatim>\<open>ok\<close> is 0 and that answers every call with the status 3, and one
  that answers \<^verbatim>\<open>ok\<close>.\<close>

definition failing_pipeline :: pipeline where
  "failing_pipeline = \<lparr>catalyst_status_ok = 0, respond = (\<lambda>tr. 3)\<rparr>"

definition ok_pipeline :: pipeline where
  "ok_pipeline = \<lparr>catalyst_status_ok = 0, respond = (\<lambda>tr. 0)\<rparr>"

text \<open>The code a call ended the process with, if it did.\<close>

definition exit_code :: "outcome \<Rightarrow> c_int option" where
  "exit_code r = (case r of Returned w \<Rightarrow> None | Exited e w \<Rightarrow> Some e)"

text \<open>
  For the comparison of the tenth claim: \<^verbatim>\<open>do_catalyt_execute\<close> with the second of the two
  equal writes of \<^verbatim>\<open>coordsets/coords/type\<close> (line 70) left out, and nothing else changed.
  This is not code of the adaptor.
\<close>

definition do_catalyt_execute_single_write :: "pipeline \<Rightarrow> c_int \<Rightarrow> conduit_float64 \<Rightarrow> CatalystData \<Rightarrow> world \<Rightarrow> outcome" where
  "do_catalyt_execute_single_write P cycle time data w0 =
     (let (catalyst_exec_params, w) = conduit_node_create w0;
          w = conduit_node_set_path_int64 catalyst_exec_params
                ''catalyst/state/timestep'' (scast cycle) w;
          w = conduit_node_set_path_float64 catalyst_exec_params
                ''catalyst/state/time'' time w;
          w = conduit_node_set_path_char8_str catalyst_exec_params
                ''catalyst/channels/grid/type'' ''mesh'' w;
          (mesh, w) = conduit_node_create w;
          w = conduit_node_set_path_char8_str mesh ''coordsets/coords/type'' ''explicit'' w;
          w = conduit_node_set_path_external_float64_ptr_detailed mesh
                ''coordsets/coords/values/x'' (Points data) (ucast (NumberOfPoints data)) 0
                (3 * sizeof_double) sizeof_double CONDUIT_ENDIANNESS_DEFAULT_ID w;
          w = conduit_node_set_path_external_float64_ptr_detailed mesh
                ''coordsets/coords/values/y'' (Points data) (ucast (NumberOfPoints data))
                (1 * sizeof_double)
                (3 * sizeof_double) sizeof_double CONDUIT_ENDIANNESS_DEFAULT_ID w;
          w = conduit_node_set_path_external_float64_ptr_detailed mesh
                ''coordsets/coords/values/z'' (Points data) (ucast (NumberOfPoints data))
                (2 * sizeof_double)
                (3 * sizeof_double) sizeof_double CONDUIT_ENDIANNESS_DEFAULT_ID w;
          w = conduit_node_set_path_char8_str mesh ''topologies/mesh/type'' ''unstructured'' w;
          w = conduit_node_set_path_char8_str mesh ''topologies/mesh/coordset'' ''coords'' w;
          shape = (if dimensions data = 2
                   then Inr (conduit_node_set_path_char8_str mesh
                               ''topologies/mesh/elements/shape'' ''quad'' w)
                   else if dimensions data = 3
                   then Inr (conduit_node_set_path_char8_str mesh
                               ''topologies/mesh/elements/shape'' ''hex'' w)
                   else Inl (printf_d ''Error, incorrect dimensions %d '' (dimensions data) w))
      in case shape of
           Inl w \<Rightarrow> Exited 1 w
         | Inr w \<Rightarrow>
           (let w = conduit_node_set_path_external_int64_ptr mesh
                      ''topologies/mesh/elements/connectivity'' (Cells data)
                      (ucast (Cell2VertexSize data)) w;
                w = conduit_node_set_path_char8_str mesh ''fields/velx/association'' ''element'' w;
                w = conduit_node_set_path_char8_str mesh ''fields/velx/topology'' ''mesh'' w;
                w = conduit_node_set_path_char8_str mesh ''fields/velx/volume_dependent'' ''false'' w;
                w = conduit_node_set_path_external_float64_ptr mesh
                      ''fields/velx/values'' (velx data) (ucast (NumberOfCells data)) w;
                w = conduit_node_set_path_char8_str mesh ''fields/vely/association'' ''element'' w;
                w = conduit_node_set_path_char8_str mesh ''fields/vely/topology'' ''mesh'' w;
                w = conduit_node_set_path_char8_str mesh ''fields/vely/volume_dependent'' ''false'' w;
                w = conduit_node_set_path_external_float64_ptr mesh
                      ''fields/vely/values'' (vely data) (ucast (NumberOfCells data)) w;
                w = conduit_node_set_path_char8_str mesh ''fields/velz/association'' ''element'' w;
                w = conduit_node_set_path_char8_str mesh ''fields/velz/topology'' ''mesh'' w;
                w = conduit_node_set_path_char8_str mesh ''fields/velz/volume_dependent'' ''false'' w;
                w = conduit_node_set_path_external_float64_ptr mesh
                      ''fields/velz/values'' (velz data) (ucast (NumberOfCells data)) w;
                w = conduit_node_set_path_char8_str mesh ''fields/pressure/association'' ''element'' w;
                w = conduit_node_set_path_char8_str mesh ''fields/pressure/topology'' ''mesh'' w;
                w = conduit_node_set_path_char8_str mesh ''fields/pressure/volume_dependent'' ''false'' w;
                w = conduit_node_set_path_external_float64_ptr mesh
                      ''fields/pressure/values'' (Pressure data) (ucast (NumberOfCells data)) w;
                w = conduit_node_set_path_external_node catalyst_exec_params
                      ''catalyst/channels/grid/data'' mesh w;
                (err, w) = catalyst_execute P catalyst_exec_params w;
                w = (if err \<noteq> catalyst_status_ok P
                     then printf_d (''Failed to execute Catalyst: %d'' @ newline) err w
                     else w);
                w = conduit_node_destroy catalyst_exec_params w;
                w = conduit_node_destroy mesh w
            in Returned w))"

section \<open>Evaluating the calls\<close>

lemmas tree_defs = dense_def coord_view_def field_tree_def coords_tree_def partial_mesh_tree_def
  mesh_tree_def state_tree_def partial_params_tree_def exec_params_tree_def init_params_tree_def

lemmas set_defs = conduit_node_set_path_char8_str_def
  conduit_node_set_path_int64_def conduit_node_set_path_float64_def
  conduit_node_set_path_external_float64_ptr_detailed_def
  conduit_node_set_path_external_float64_ptr_def
  conduit_node_set_path_external_int64_ptr_def
  conduit_node_set_path_external_node_def

subsection \<open>The trees\<close>

lemma init_puts:
  "put (split_path ''catalyst_load/search_paths/paraview'')
     (Char8_str ''/home/uqngibbo/source/ParaView/build/lib/catalyst'')
     (put (split_path ''catalyst_load/implementation'') (Char8_str ''paraview'')
       (put (split_path ''catalyst/scripts/script0'') (Char8_str ''catalyst_pipeline.py'') Empty))
   = init_params_tree"
  by (simp add: split_path_def tree_defs)

lemma params_puts:
  "put (split_path ''catalyst/channels/grid/type'') (Char8_str ''mesh'')
     (put (split_path ''catalyst/state/time'') (Float64 t)
       (put (split_path ''catalyst/state/timestep'') (Int64 (scast c)) Empty))
   = partial_params_tree c t"
  by (simp add: split_path_def tree_defs)

lemma params_data_put:
  "put (split_path ''catalyst/channels/grid/data'') (External_node m) (partial_params_tree c t)
   = exec_params_tree c t m"
  by (simp add: split_path_def tree_defs)

lemma mesh_puts_pre:
  "put (split_path ''topologies/mesh/coordset'') (Char8_str ''coords'')
    (put (split_path ''topologies/mesh/type'') (Char8_str ''unstructured'')
      (put (split_path ''coordsets/coords/values/z'')
        (External FLOAT64
          \<lparr>data_ptr = Points d, num_elements = ucast (NumberOfPoints d),
             offset = 2 * sizeof_double, stride = 3 * sizeof_double,
             element_bytes = sizeof_double, endianness_id = CONDUIT_ENDIANNESS_DEFAULT_ID\<rparr>)
        (put (split_path ''coordsets/coords/values/y'')
          (External FLOAT64
            \<lparr>data_ptr = Points d, num_elements = ucast (NumberOfPoints d),
               offset = 1 * sizeof_double, stride = 3 * sizeof_double,
               element_bytes = sizeof_double, endianness_id = CONDUIT_ENDIANNESS_DEFAULT_ID\<rparr>)
          (put (split_path ''coordsets/coords/values/x'')
            (External FLOAT64
              \<lparr>data_ptr = Points d, num_elements = ucast (NumberOfPoints d),
                 offset = 0, stride = 3 * sizeof_double,
                 element_bytes = sizeof_double, endianness_id = CONDUIT_ENDIANNESS_DEFAULT_ID\<rparr>)
            (put (split_path ''coordsets/coords/type'') (Char8_str ''explicit'')
              (put (split_path ''coordsets/coords/type'') (Char8_str ''explicit'') Empty))))))
   = partial_mesh_tree d"
  by (simp add: split_path_def tree_defs sizeof_double_def)

lemma mesh_puts_post:
  "put (split_path ''fields/pressure/values'')
     (External FLOAT64
       \<lparr>data_ptr = Pressure d, num_elements = ucast (NumberOfCells d), offset = 0,
          stride = 8, element_bytes = 8, endianness_id = CONDUIT_ENDIANNESS_DEFAULT_ID\<rparr>)
    (put (split_path ''fields/pressure/volume_dependent'') (Char8_str ''false'')
    (put (split_path ''fields/pressure/topology'') (Char8_str ''mesh'')
    (put (split_path ''fields/pressure/association'') (Char8_str ''element'')
    (put (split_path ''fields/velz/values'')
       (External FLOAT64
         \<lparr>data_ptr = velz d, num_elements = ucast (NumberOfCells d), offset = 0,
            stride = 8, element_bytes = 8, endianness_id = CONDUIT_ENDIANNESS_DEFAULT_ID\<rparr>)
    (put (split_path ''fields/velz/volume_dependent'') (Char8_str ''false'')
    (put (split_path ''fields/velz/topology'') (Char8_str ''mesh'')
    (put (split_path ''fields/velz/association'') (Char8_str ''element'')
    (put (split_path ''fields/vely/values'')
       (External FLOAT64
         \<lparr>data_ptr = vely d, num_elements = ucast (NumberOfCells d), offset = 0,
            stride = 8, element_bytes = 8, endianness_id = CONDUIT_ENDIANNESS_DEFAULT_ID\<rparr>)
    (put (split_path ''fields/vely/volume_dependent'') (Char8_str ''false'')
    (put (split_path ''fields/vely/topology'') (Char8_str ''mesh'')
    (put (split_path ''fields/vely/association'') (Char8_str ''element'')
    (put (split_path ''fields/velx/values'')
       (External FLOAT64
         \<lparr>data_ptr = velx d, num_elements = ucast (NumberOfCells d), offset = 0,
            stride = 8, element_bytes = 8, endianness_id = CONDUIT_ENDIANNESS_DEFAULT_ID\<rparr>)
    (put (split_path ''fields/velx/volume_dependent'') (Char8_str ''false'')
    (put (split_path ''fields/velx/topology'') (Char8_str ''mesh'')
    (put (split_path ''fields/velx/association'') (Char8_str ''element'')
    (put (split_path ''topologies/mesh/elements/connectivity'')
       (External INT64
         \<lparr>data_ptr = Cells d, num_elements = ucast (Cell2VertexSize d), offset = 0,
            stride = 8, element_bytes = 8, endianness_id = CONDUIT_ENDIANNESS_DEFAULT_ID\<rparr>)
    (put (split_path ''topologies/mesh/elements/shape'') (Char8_str shape)
       (partial_mesh_tree d))))))))))))))))))
   = mesh_tree d shape"
  by (simp add: split_path_def tree_defs)

subsection \<open>The store\<close>

lemma one_one: "one_node (one_node w a) b = two_nodes w a b"
  by (simp add: one_node_def two_nodes_def)

lemma fresh_one: "fresh (one_node w a) = Suc (fresh w)"
  by (simp add: one_node_def)

lemma create_one: "conduit_node_create w = (fresh w, one_node w Empty)"
  by (simp add: conduit_node_create_def one_node_def)

lemma set_path_one: "set_path (fresh w) p v (one_node w a) = one_node w (put (split_path p) v a)"
  by (simp add: set_path_def one_node_def)

lemma set_path_two_fst:
  "set_path (fresh w) p v (two_nodes w a b) = two_nodes w (put (split_path p) v a) b"
  by (simp add: set_path_def two_nodes_def fun_upd_twist)

lemma set_path_two_snd:
  "set_path (Suc (fresh w)) p v (two_nodes w a b) = two_nodes w a (put (split_path p) v b)"
  by (simp add: set_path_def two_nodes_def)

lemmas exec_steps = create_one one_one fresh_one prod.case set_path_one set_path_two_fst
  set_path_two_snd init_puts params_puts params_data_put mesh_puts_pre mesh_puts_post

subsection \<open>The three calls\<close>

lemma format_ok: "format_d (''Failed to execute Catalyst: %d'' @ newline) i = ''Failed to execute Catalyst: '' @ show_int i @ newline"
  by (simp add: newline_def)

lemma format_init: "format_d (''Failed to initialize Catalyst: %d'' @ newline) i = ''Failed to initialize Catalyst: '' @ show_int i @ newline"
  by (simp add: newline_def)

lemma format_dims: "format_d ''Error, incorrect dimensions %d '' i = ''Error, incorrect dimensions '' @ show_int i @ '' ''"
  by simp

lemma finish_two:
  "(case catalyst_execute P (fresh w) (two_nodes w a b) of
      (err, wa) \<Rightarrow>
        Returned
         (conduit_node_destroy (Suc (fresh w))
           (conduit_node_destroy (fresh w)
             (if err \<noteq> catalyst_status_ok P
              then printf_d (''Failed to execute Catalyst: %d'' @ newline) err wa
              else wa))))
   = Returned (returned_world P w 2
        \<lparr>entry = Execute, params = fresh w, store = (nodes w)(fresh w \<mapsto> a, Suc (fresh w) \<mapsto> b)\<rparr>
        ''Failed to execute Catalyst: '')"
  by (auto simp add: catalyst_execute_def catalyst_call_def conduit_node_destroy_def two_nodes_def
      returned_world_def diagnostic_def printf_d_def format_ok Let_def fun_eq_iff)

lemma execute_valid:
  assumes "dimensions d = 2 \<or> dimensions d = 3"
  shows "do_catalyt_execute P c t d w =
    Returned (returned_world P w 2 (execute_submission w c t d) ''Failed to execute Catalyst: '')"
proof -
  from assms show ?thesis
  proof
    assume "dimensions d = 2"
    then show ?thesis
      unfolding do_catalyt_execute_def Let_def set_defs
      by (simp only: exec_steps if_True sum.case refl finish_two execute_submission_def shape_name_def)
  next
    assume d3: "dimensions d = 3"
    then have "dimensions d \<noteq> 2" by simp
    with d3 show ?thesis
      unfolding do_catalyt_execute_def Let_def set_defs
      by (simp only: exec_steps if_True if_False sum.case refl finish_two execute_submission_def shape_name_def)
  qed
qed

lemma execute_invalid:
  assumes "dimensions d \<noteq> 2" "dimensions d \<noteq> 3"
  shows "do_catalyt_execute P c t d w =
    Exited 1 ((two_nodes w (partial_params_tree c t) (partial_mesh_tree d))
       \<lparr>stdout := stdout w @ ''Error, incorrect dimensions '' @ show_int (sint (dimensions d)) @ '' ''\<rparr>)"
  using assms unfolding do_catalyt_execute_def Let_def set_defs
  by (simp only: exec_steps if_False sum.case refl printf_d_def format_dims) (simp add: two_nodes_def)

lemma initialization_returns:
  "do_catalyst_initialization P w =
    Returned (returned_world P w 1 (initialize_submission w) ''Failed to initialize Catalyst: '')"
  unfolding do_catalyst_initialization_def Let_def set_defs
  apply (simp only: exec_steps)
  apply (auto simp add: catalyst_initialize_def catalyst_call_def conduit_node_destroy_def one_node_def
      returned_world_def diagnostic_def printf_d_def format_init Let_def fun_eq_iff initialize_submission_def)
  done

lemma finalization_returns:
  "do_catalyt_finalization P w =
    Returned (returned_world P w 1 (finalize_submission w) ''Failed to execute Catalyst: '')"
  unfolding do_catalyt_finalization_def Let_def set_defs
  apply (simp only: exec_steps)
  apply (auto simp add: catalyst_finalize_def catalyst_call_def conduit_node_destroy_def one_node_def
      returned_world_def diagnostic_def printf_d_def format_ok Let_def fun_eq_iff finalize_submission_def)
  done

subsection \<open>Casts of the counts and of the cycle\<close>

lemma unat_count_bound: "unat (n :: 32 word) < 2 ^ 32"
  using unsigned_less [of n, where 'a = nat] by simp

lemma unat_ucast_index: "unat (ucast (n :: 32 word) :: 64 word) = unat n"
proof -
  have "unat n < 2 ^ 64" using unat_count_bound [of n] by simp
  then show ?thesis by (simp add: unsigned_ucast_eq take_bit_nat_eq_self)
qed

lemma sint_ucast_index: "sint (ucast (n :: 32 word) :: 64 word) = uint n"
proof -
  have "uint n < 2 ^ 32" using uint_bounded [of n] by simp
  moreover have "- 9223372036854775808 \<le> uint n"
    using uint_nonnegative [of n] by linarith
  ultimately have "- 9223372036854775808 \<le> uint n \<and> uint n < 9223372036854775808" by simp
  then show ?thesis by (simp add: signed_ucast_eq signed_take_bit_int_eq_self_iff)
qed

lemma sint_scast_cycle: "sint (scast (c :: 32 word) :: 64 word) = sint c"
proof -
  have "sint c < 2 ^ 31" "- (2 ^ 31) \<le> sint c"
    using sint_lt [of c] sint_ge [of c] by simp_all
  then have "- (2 ^ 63) \<le> sint c \<and> sint c < 2 ^ 63" by simp
  then show ?thesis by (simp add: signed_scast_eq signed_take_bit_int_eq_self_iff)
qed

subsection \<open>What a call leaves behind\<close>

lemma returned_fields:
  "submitted (returned_world P w k s msg) = submitted w @ [s]"
  "stdout (returned_world P w k s msg) = stdout w @ diagnostic P (submitted w @ [s]) msg"
  "fresh (returned_world P w k s msg) = fresh w + k"
  "memory (returned_world P w k s msg) = memory w"
  "allocated (returned_world P w k s msg) = allocated w"
  "nodes (returned_world P w k s msg) h = (if fresh w \<le> h \<and> h < fresh w + k then None else nodes w h)"
  by (simp_all add: returned_world_def)

lemma nodes_returned_wf: "wf_world w \<Longrightarrow> nodes (returned_world P w k s msg) = nodes w"
  by (auto simp add: returned_world_def wf_world_def fun_eq_iff)

lemma wf_returned: "wf_world w \<Longrightarrow> wf_world (returned_world P w k s msg)"
  by (simp add: returned_world_def wf_world_def)

lemma attached_execute:
  "attached (execute_submission w c t d) ''catalyst/channels/grid/data'' = Some (mesh_tree d (shape_name d))"
  by (simp add: attached_def execute_submission_def fetch_def split_path_def exec_params_tree_def state_tree_def)

lemma submitted_returned: "submitted (returned_world P w k s msg) = submitted w @ [s]"
  by (simp add: returned_world_def)

lemma built_mesh_valid:
  "dimensions d = 2 \<or> dimensions d = 3 \<Longrightarrow>
   built_mesh w (do_catalyt_execute P c t d w) = Some (mesh_tree d (shape_name d))"
  by (simp add: execute_valid built_mesh_def submitted_returned attached_execute)

lemma built_mesh_invalid:
  "dimensions d \<noteq> 2 \<Longrightarrow> dimensions d \<noteq> 3 \<Longrightarrow>
   built_mesh w (do_catalyt_execute P c t d w) = Some (partial_mesh_tree d)"
  by (simp add: execute_invalid built_mesh_def two_nodes_def)

lemma built_mesh_returned:
  "built_mesh w (Returned (returned_world P w 2 (execute_submission w c t d) msg))
   = Some (mesh_tree d (shape_name d))"
  by (simp add: built_mesh_def returned_fields attached_execute)

subsection \<open>Reading the trees\<close>

lemma coords_mesh_tree:
  "fetch ''coordsets/coords/values/x'' (mesh_tree d sh) = Some (Leaf (External FLOAT64 (coord_view d 0)))"
  "fetch ''coordsets/coords/values/y'' (mesh_tree d sh) = Some (Leaf (External FLOAT64 (coord_view d 8)))"
  "fetch ''coordsets/coords/values/z'' (mesh_tree d sh) = Some (Leaf (External FLOAT64 (coord_view d 16)))"
  by (simp_all add: fetch_def split_path_def mesh_tree_def coords_tree_def)

lemma coords_partial_mesh_tree:
  "fetch ''coordsets/coords/values/x'' (partial_mesh_tree d) = Some (Leaf (External FLOAT64 (coord_view d 0)))"
  "fetch ''coordsets/coords/values/y'' (partial_mesh_tree d) = Some (Leaf (External FLOAT64 (coord_view d 8)))"
  "fetch ''coordsets/coords/values/z'' (partial_mesh_tree d) = Some (Leaf (External FLOAT64 (coord_view d 16)))"
  by (simp_all add: fetch_def split_path_def partial_mesh_tree_def coords_tree_def)

lemma coords_built:
  "\<exists>m. built_mesh w (do_catalyt_execute P c t d w) = Some m
     \<and> fetch ''coordsets/coords/values/x'' m = Some (Leaf (External FLOAT64 (coord_view d 0)))
     \<and> fetch ''coordsets/coords/values/y'' m = Some (Leaf (External FLOAT64 (coord_view d 8)))
     \<and> fetch ''coordsets/coords/values/z'' m = Some (Leaf (External FLOAT64 (coord_view d 16)))"
proof (cases "dimensions d = 2 \<or> dimensions d = 3")
  case True
  then show ?thesis by (simp add: built_mesh_valid coords_mesh_tree)
next
  case False
  then show ?thesis by (simp add: built_mesh_invalid coords_partial_mesh_tree)
qed

lemma coord_view_element:
  "a < 3 \<Longrightarrow> view_element mem (coord_view d (8 * of_nat a)) i = c_double_at mem (Points d) (3 * i + a)"
  by (simp add: view_element_def c_double_at_def coord_view_def sizeof_double_def algebra_simps)

lemma shape_mesh_tree:
  "fetch ''topologies/mesh/elements/shape'' (mesh_tree d sh) = Some (Leaf (Char8_str sh))"
  "fetch ''topologies/mesh/elements/connectivity'' (mesh_tree d sh)
     = Some (Leaf (External INT64 (dense (Cells d) (Cell2VertexSize d))))"
  by (simp_all add: fetch_def split_path_def mesh_tree_def)

lemma shape_partial_mesh_tree:
  "fetch ''topologies/mesh/elements/shape'' (partial_mesh_tree d) = None"
  "child_names ''fields'' (partial_mesh_tree d) = []"
  by (simp_all add: child_names_def fetch_def split_path_def partial_mesh_tree_def)

lemma dense_element: "view_element mem (dense p n) i = c_double_at mem p i"
  by (simp add: view_element_def c_double_at_def dense_def sizeof_double_def)

lemma fields_mesh_tree:
  "child_names ''fields'' (mesh_tree d sh) = [''velx'', ''vely'', ''velz'', ''pressure'']"
  "fetch ''fields/velx'' (mesh_tree d sh) = Some (field_tree (velx d) (NumberOfCells d))"
  "fetch ''fields/vely'' (mesh_tree d sh) = Some (field_tree (vely d) (NumberOfCells d))"
  "fetch ''fields/velz'' (mesh_tree d sh) = Some (field_tree (velz d) (NumberOfCells d))"
  "fetch ''fields/pressure'' (mesh_tree d sh) = Some (field_tree (Pressure d) (NumberOfCells d))"
  by (simp_all add: child_names_def fetch_def split_path_def mesh_tree_def)

lemma field_tree_entries:
  "map fst (children (field_tree p n)) = [''association'', ''topology'', ''volume_dependent'', ''values'']"
  "fetch ''association'' (field_tree p n) = Some (Leaf (Char8_str ''element''))"
  "fetch ''topology'' (field_tree p n) = Some (Leaf (Char8_str ''mesh''))"
  "fetch ''volume_dependent'' (field_tree p n) = Some (Leaf (Char8_str ''false''))"
  "fetch ''values'' (field_tree p n) = Some (Leaf (External FLOAT64 (dense p n)))"
  by (simp_all add: fetch_def split_path_def field_tree_def)

lemma params_tree_entries:
  "fetch ''catalyst/state/timestep'' (exec_params_tree c t m) = Some (Leaf (Int64 (scast c)))"
  "fetch ''catalyst/state/time'' (exec_params_tree c t m) = Some (Leaf (Float64 t))"
  "fetch ''catalyst/channels/grid/type'' (exec_params_tree c t m) = Some (Leaf (Char8_str ''mesh''))"
  "fetch ''catalyst/channels/grid/data'' (exec_params_tree c t m) = Some (Leaf (External_node m))"
  "views (exec_params_tree c t m) = []"
  by (simp_all add: fetch_def split_path_def exec_params_tree_def state_tree_def views_def)

lemma execute_submission_fields:
  "entry (execute_submission w c t d) = Execute"
  "params (execute_submission w c t d) = fresh w"
  "store (execute_submission w c t d) (fresh w) = Some (exec_params_tree c t (Suc (fresh w)))"
  "store (execute_submission w c t d) (Suc (fresh w)) = Some (mesh_tree d (shape_name d))"
  by (simp_all add: execute_submission_def)

lemma mesh_tree_children:
  "map fst (children (mesh_tree d sh)) = [''coordsets'', ''topologies'', ''fields'']"
  by (simp add: mesh_tree_def)

lemma show_int_3: "show_int 3 = ''3''"
  by code_simp

subsection \<open>The call with a single write of the coordinate set type\<close>

lemma mesh_puts_pre_single:
  "put (split_path ''topologies/mesh/coordset'') (Char8_str ''coords'')
    (put (split_path ''topologies/mesh/type'') (Char8_str ''unstructured'')
      (put (split_path ''coordsets/coords/values/z'')
        (External FLOAT64
          \<lparr>data_ptr = Points d, num_elements = ucast (NumberOfPoints d),
             offset = 2 * sizeof_double, stride = 3 * sizeof_double,
             element_bytes = sizeof_double, endianness_id = CONDUIT_ENDIANNESS_DEFAULT_ID\<rparr>)
        (put (split_path ''coordsets/coords/values/y'')
          (External FLOAT64
            \<lparr>data_ptr = Points d, num_elements = ucast (NumberOfPoints d),
               offset = 1 * sizeof_double, stride = 3 * sizeof_double,
               element_bytes = sizeof_double, endianness_id = CONDUIT_ENDIANNESS_DEFAULT_ID\<rparr>)
          (put (split_path ''coordsets/coords/values/x'')
            (External FLOAT64
              \<lparr>data_ptr = Points d, num_elements = ucast (NumberOfPoints d),
                 offset = 0, stride = 3 * sizeof_double,
                 element_bytes = sizeof_double, endianness_id = CONDUIT_ENDIANNESS_DEFAULT_ID\<rparr>)
            (put (split_path ''coordsets/coords/type'') (Char8_str ''explicit'') Empty)))))
   = partial_mesh_tree d"
  by (simp add: split_path_def tree_defs sizeof_double_def)

lemma single_write_valid:
  assumes "dimensions d = 2 \<or> dimensions d = 3"
  shows "do_catalyt_execute_single_write P c t d w =
    Returned (returned_world P w 2 (execute_submission w c t d) ''Failed to execute Catalyst: '')"
proof -
  from assms show ?thesis
  proof
    assume "dimensions d = 2"
    then show ?thesis
      unfolding do_catalyt_execute_single_write_def Let_def set_defs
      by (simp only: exec_steps mesh_puts_pre_single if_True sum.case refl finish_two
          execute_submission_def shape_name_def)
  next
    assume d3: "dimensions d = 3"
    then have "dimensions d \<noteq> 2" by simp
    with d3 show ?thesis
      unfolding do_catalyt_execute_single_write_def Let_def set_defs
      by (simp only: exec_steps mesh_puts_pre_single if_True if_False sum.case refl finish_two
          execute_submission_def shape_name_def)
  qed
qed

lemma single_write_invalid:
  assumes "dimensions d \<noteq> 2" "dimensions d \<noteq> 3"
  shows "do_catalyt_execute_single_write P c t d w =
    Exited 1 ((two_nodes w (partial_params_tree c t) (partial_mesh_tree d))
       \<lparr>stdout := stdout w @ ''Error, incorrect dimensions '' @ show_int (sint (dimensions d)) @ '' ''\<rparr>)"
  using assms unfolding do_catalyt_execute_single_write_def Let_def set_defs
  by (simp only: exec_steps mesh_puts_pre_single if_False sum.case refl printf_d_def format_dims)
     (simp add: two_nodes_def)

lemma upd_child_idem:
  "(\<And>c. f (f c) = f c) \<Longrightarrow> upd_child k f (upd_child k f kvs) = upd_child k f kvs"
  by (induction kvs) auto

lemma put_idem: "put ks v (put ks v n) = put ks v n"
proof (induction ks arbitrary: n)
  case Nil
  show ?case by simp
next
  case (Cons k ks)
  show ?case by (simp add: upd_child_idem [of "put ks v"] Cons.IH)
qed

lemma set_path_idem: "set_path h p v (set_path h p v w) = set_path h p v w"
  by (cases "nodes w h") (simp_all add: set_path_def put_idem)

lemma wf_fresh_free: "wf_world w \<Longrightarrow> nodes w (fresh w) = None \<and> nodes w (Suc (fresh w)) = None"
  by (simp add: wf_world_def)

subsection \<open>The configuration and the views\<close>

lemma init_tree_entries:
  "leaves init_params_tree =
     [([''catalyst'', ''scripts'', ''script0''], Char8_str ''catalyst_pipeline.py''),
      ([''catalyst_load'', ''implementation''], Char8_str ''paraview''),
      ([''catalyst_load'', ''search_paths'', ''paraview''],
       Char8_str ''/home/uqngibbo/source/ParaView/build/lib/catalyst'')]"
  "fetch ''catalyst/scripts/script0'' init_params_tree = Some (Leaf (Char8_str ''catalyst_pipeline.py''))"
  "fetch ''catalyst_load/implementation'' init_params_tree = Some (Leaf (Char8_str ''paraview''))"
  "fetch (''catalyst_load/search_paths/'' @ ''paraview'') init_params_tree
     = Some (Leaf (Char8_str ''/home/uqngibbo/source/ParaView/build/lib/catalyst''))"
  by (simp_all add: fetch_def split_path_def init_params_tree_def)

lemma initialize_submission_fields:
  "entry (initialize_submission w) = Initialize"
  "params (initialize_submission w) = fresh w"
  "store (initialize_submission w) (fresh w) = Some init_params_tree"
  by (simp_all add: initialize_submission_def)

lemma views_mesh_tree:
  "views (mesh_tree d sh) =
     [coord_view d 0, coord_view d 8, coord_view d 16,
      dense (Cells d) (Cell2VertexSize d),
      dense (velx d) (NumberOfCells d), dense (vely d) (NumberOfCells d),
      dense (velz d) (NumberOfCells d), dense (Pressure d) (NumberOfCells d)]"
  by (simp add: views_def mesh_tree_def coords_tree_def field_tree_def)

lemma views_partial_mesh_tree:
  "views (partial_mesh_tree d) = [coord_view d 0, coord_view d 8, coord_view d 16]"
  by (simp add: views_def partial_mesh_tree_def coords_tree_def)

lemma view_lengths:
  "num_elements (coord_view d off) = ucast (NumberOfPoints d)"
  "num_elements (dense p n) = ucast n"
  by (simp_all add: coord_view_def dense_def)

lemma count_le: "unat (n :: c_uint) \<le> 2 ^ 32 - 1"
  using unat_count_bound [of n] by simp

section \<open>The claims\<close>

text \<open>
  C1.  For every snapshot the call builds three coordinate views \<open>x\<close>, \<open>y\<close> and \<open>z\<close> over
  the interleaved points array: each is declared with \<open>pointCount\<close> elements of 8 bytes, a
  stride of 24 bytes, and the byte offsets 0, 8 and 16.  Element \<open>i\<close> of the view of axis
  \<open>a\<close> is the same bytes as \<^verbatim>\<open>points[3*i + a]\<close>, for every \<open>i\<close> below \<open>pointCount\<close>.  The views
  are built before the dimensions are looked at, so this holds also when the process exits.
\<close>

theorem coordinate_views:
  "\<exists>m vx vy vz.
     built_mesh w (do_catalyt_execute P c t d w) = Some m
   \<and> fetch ''coordsets/coords/values/x'' m = Some (Leaf (External FLOAT64 vx))
   \<and> fetch ''coordsets/coords/values/y'' m = Some (Leaf (External FLOAT64 vy))
   \<and> fetch ''coordsets/coords/values/z'' m = Some (Leaf (External FLOAT64 vz))
   \<and> vx = \<lparr>data_ptr = Points d, num_elements = ucast (NumberOfPoints d), offset = 0,
           stride = 24, element_bytes = 8, endianness_id = CONDUIT_ENDIANNESS_DEFAULT_ID\<rparr>
   \<and> vy = \<lparr>data_ptr = Points d, num_elements = ucast (NumberOfPoints d), offset = 8,
           stride = 24, element_bytes = 8, endianness_id = CONDUIT_ENDIANNESS_DEFAULT_ID\<rparr>
   \<and> vz = \<lparr>data_ptr = Points d, num_elements = ucast (NumberOfPoints d), offset = 16,
           stride = 24, element_bytes = 8, endianness_id = CONDUIT_ENDIANNESS_DEFAULT_ID\<rparr>
   \<and> unat (num_elements vx) = unat (NumberOfPoints d)
   \<and> (\<forall>i < unat (NumberOfPoints d).
         view_element mem vx i = c_double_at mem (Points d) (3 * i + 0)
       \<and> view_element mem vy i = c_double_at mem (Points d) (3 * i + 1)
       \<and> view_element mem vz i = c_double_at mem (Points d) (3 * i + 2))"
proof -
  from coords_built [of w P c t d] obtain m where
    m: "built_mesh w (do_catalyt_execute P c t d w) = Some m"
      "fetch ''coordsets/coords/values/x'' m = Some (Leaf (External FLOAT64 (coord_view d 0)))"
      "fetch ''coordsets/coords/values/y'' m = Some (Leaf (External FLOAT64 (coord_view d 8)))"
      "fetch ''coordsets/coords/values/z'' m = Some (Leaf (External FLOAT64 (coord_view d 16)))"
    by blast
  have e0: "view_element mem (coord_view d 0) i = c_double_at mem (Points d) (3 * i + 0)" for i
    using coord_view_element [of 0 mem d i] by simp
  have e1: "view_element mem (coord_view d 8) i = c_double_at mem (Points d) (3 * i + 1)" for i
    using coord_view_element [of 1 mem d i] by simp
  have e2: "view_element mem (coord_view d 16) i = c_double_at mem (Points d) (3 * i + 2)" for i
    using coord_view_element [of 2 mem d i] by simp
  have n: "unat (ucast (NumberOfPoints d) :: 64 word) = unat (NumberOfPoints d)"
    by (rule unat_ucast_index)
  show ?thesis
    apply (rule exI [of _ m])
    apply (rule exI [of _ "coord_view d 0"])
    apply (rule exI [of _ "coord_view d 8"])
    apply (rule exI [of _ "coord_view d 16"])
    using m e0 e1 e2 n apply (simp add: coord_view_def)
    done
qed

theorem coordinate_views_witness:
  "1 < unat (NumberOfPoints quad_snapshot) \<and>
   (\<exists>m vy. built_mesh world0
              (do_catalyt_execute ok_pipeline 5 0x3F50624DD2F1A9FC quad_snapshot world0) = Some m
     \<and> fetch ''coordsets/coords/values/y'' m = Some (Leaf (External FLOAT64 vy))
     \<and> offset vy = 8 \<and> stride vy = 24
     \<and> view_element (memory world0) vy 1 = c_double_at (memory world0) (Points quad_snapshot) 4)"
proof -
  have h: "1 < unat (NumberOfPoints quad_snapshot)"
    by (simp add: quad_snapshot_def)
  from coordinate_views [of world0 ok_pipeline 5 "0x3F50624DD2F1A9FC" quad_snapshot "memory world0"]
  obtain m vx vy vz where
    m: "built_mesh world0
          (do_catalyt_execute ok_pipeline 5 0x3F50624DD2F1A9FC quad_snapshot world0) = Some m"
    and y: "fetch ''coordsets/coords/values/y'' m = Some (Leaf (External FLOAT64 vy))"
    and vy: "vy = \<lparr>data_ptr = Points quad_snapshot,
                   num_elements = ucast (NumberOfPoints quad_snapshot), offset = 8,
                   stride = 24, element_bytes = 8,
                   endianness_id = CONDUIT_ENDIANNESS_DEFAULT_ID\<rparr>"
    and e: "\<forall>i < unat (NumberOfPoints quad_snapshot).
         view_element (memory world0) vx i = c_double_at (memory world0) (Points quad_snapshot) (3 * i + 0)
       \<and> view_element (memory world0) vy i = c_double_at (memory world0) (Points quad_snapshot) (3 * i + 1)
       \<and> view_element (memory world0) vz i = c_double_at (memory world0) (Points quad_snapshot) (3 * i + 2)"
    by blast
  from e h have "view_element (memory world0) vy 1 = c_double_at (memory world0) (Points quad_snapshot) 4"
    by fastforce
  with h m y vy show ?thesis by simp
qed

text \<open>
  C2.  With \<open>dimensions = 2\<close> the shape of the topology is \<^verbatim>\<open>quad\<close>, with \<open>dimensions = 3\<close> it
  is \<^verbatim>\<open>hex\<close>; with any other value the process exits with the code 1, which is not 0, and
  the pipeline has received nothing from the call.
\<close>

theorem shape_or_exit:
  "(dimensions d = 2 \<longrightarrow>
      (\<exists>w' m. do_catalyt_execute P c t d w = Returned w'
         \<and> built_mesh w (Returned w') = Some m
         \<and> fetch ''topologies/mesh/elements/shape'' m = Some (Leaf (Char8_str ''quad''))))
   \<and> (dimensions d = 3 \<longrightarrow>
      (\<exists>w' m. do_catalyt_execute P c t d w = Returned w'
         \<and> built_mesh w (Returned w') = Some m
         \<and> fetch ''topologies/mesh/elements/shape'' m = Some (Leaf (Char8_str ''hex''))))
   \<and> (dimensions d \<noteq> 2 \<and> dimensions d \<noteq> 3 \<longrightarrow>
      (\<exists>w'. do_catalyt_execute P c t d w = Exited 1 w'
         \<and> (1 :: c_int) \<noteq> 0
         \<and> submitted w' = submitted w))"
  by (simp add: execute_valid execute_invalid built_mesh_returned shape_mesh_tree shape_name_def
      two_nodes_def)

theorem shape_or_exit_witness:
  "dimensions quad_snapshot = 2 \<and> dimensions hex_snapshot = 3
   \<and> dimensions bad_snapshot \<noteq> 2 \<and> dimensions bad_snapshot \<noteq> 3
   \<and> (\<exists>w' m. do_catalyt_execute failing_pipeline 5 0 quad_snapshot world0 = Returned w'
         \<and> built_mesh world0 (Returned w') = Some m
         \<and> fetch ''topologies/mesh/elements/shape'' m = Some (Leaf (Char8_str ''quad'')))
   \<and> (\<exists>w' m. do_catalyt_execute failing_pipeline 5 0 hex_snapshot world0 = Returned w'
         \<and> built_mesh world0 (Returned w') = Some m
         \<and> fetch ''topologies/mesh/elements/shape'' m = Some (Leaf (Char8_str ''hex'')))
   \<and> (\<exists>w'. do_catalyt_execute failing_pipeline 5 0 bad_snapshot world0 = Exited 1 w'
         \<and> submitted w' = [])"
proof -
  have h: "dimensions quad_snapshot = 2" "dimensions hex_snapshot = 3"
    "dimensions bad_snapshot \<noteq> 2" "dimensions bad_snapshot \<noteq> 3"
    by (simp_all add: quad_snapshot_def hex_snapshot_def bad_snapshot_def)
  have s: "submitted world0 = []" by (simp add: world0_def)
  show ?thesis
    using h s shape_or_exit [of quad_snapshot failing_pipeline 5 0 world0]
      shape_or_exit [of hex_snapshot failing_pipeline 5 0 world0]
      shape_or_exit [of bad_snapshot failing_pipeline 5 0 world0]
    by simp
qed

text \<open>
  C3.  For an internally consistent snapshot the connectivity entry is an external view,
  of type int64, of the snapshot's own connectivity array (offset 0, elements of 8 bytes
  one after the other); its length, a signed 64-bit count, is \<open>connectivitySize\<close>, which
  is \<open>cellCount \<times> verticesPerCell\<close>: 4 per cell where the shape is \<^verbatim>\<open>quad\<close>, 8 per cell
  where it is \<^verbatim>\<open>hex\<close>.  The simulation memory is the same after the call.
\<close>

theorem connectivity_view:
  assumes "internally_consistent d"
  shows "\<exists>w' m v k.
       do_catalyt_execute P c t d w = Returned w'
     \<and> built_mesh w (Returned w') = Some m
     \<and> fetch ''topologies/mesh/elements/connectivity'' m = Some (Leaf (External INT64 v))
     \<and> data_ptr v = Cells d \<and> offset v = 0 \<and> stride v = 8 \<and> element_bytes v = 8
     \<and> sint (num_elements v) = int (unat (Cell2VertexSize d))
     \<and> verticesPerCell (dimensions d) = Some k
     \<and> unat (num_elements v) = unat (NumberOfCells d) * k
     \<and> (k = 4 \<and> fetch ''topologies/mesh/elements/shape'' m = Some (Leaf (Char8_str ''quad''))
        \<or> k = 8 \<and> fetch ''topologies/mesh/elements/shape'' m = Some (Leaf (Char8_str ''hex'')))
     \<and> memory w' = memory w"
proof -
  from assms obtain k where k: "verticesPerCell (dimensions d) = Some k"
    and n: "unat (Cell2VertexSize d) = unat (NumberOfCells d) * k"
    by (auto simp add: internally_consistent_def split: option.splits)
  from k have dims: "dimensions d = 2 \<or> dimensions d = 3"
    by (auto simp add: verticesPerCell_def split: if_splits)
  from k have shape: "k = 4 \<and> shape_name d = ''quad'' \<or> k = 8 \<and> shape_name d = ''hex''"
    by (auto simp add: verticesPerCell_def shape_name_def split: if_splits)
  let ?v = "dense (Cells d) (Cell2VertexSize d)"
  have v: "data_ptr ?v = Cells d" "offset ?v = 0" "stride ?v = 8" "element_bytes ?v = 8"
    "num_elements ?v = ucast (Cell2VertexSize d)"
    by (simp_all add: dense_def)
  have s: "sint (num_elements ?v) = int (unat (Cell2VertexSize d))"
    by (simp add: v sint_ucast_index)
  have u: "unat (num_elements ?v) = unat (NumberOfCells d) * k"
    by (simp add: v unat_ucast_index n)
  show ?thesis
    apply (rule exI [of _ "returned_world P w 2 (execute_submission w c t d) ''Failed to execute Catalyst: ''"])
    apply (rule exI [of _ "mesh_tree d (shape_name d)"])
    apply (rule exI [of _ ?v])
    apply (rule exI [of _ k])
    using shape apply (simp add: execute_valid [OF dims] built_mesh_returned shape_mesh_tree
        v(1-4) s u k returned_fields)
    done
qed

theorem connectivity_view_witness:
  "internally_consistent quad_snapshot \<and>
   (\<exists>w' m v. do_catalyt_execute ok_pipeline 5 0 quad_snapshot world0 = Returned w'
     \<and> built_mesh world0 (Returned w') = Some m
     \<and> fetch ''topologies/mesh/elements/connectivity'' m = Some (Leaf (External INT64 v))
     \<and> data_ptr v = 0x2000 \<and> unat (num_elements v) = 1 * 4)"
proof -
  have h: "internally_consistent quad_snapshot"
    by (simp add: internally_consistent_def verticesPerCell_def quad_snapshot_def)
  have q: "verticesPerCell (dimensions quad_snapshot) = Some 4" "Cells quad_snapshot = 0x2000"
    "unat (NumberOfCells quad_snapshot) = 1"
    by (simp_all add: verticesPerCell_def quad_snapshot_def)
  from connectivity_view [OF h, of ok_pipeline 5 0 world0] q
  have "\<exists>w' m v. do_catalyt_execute ok_pipeline 5 0 quad_snapshot world0 = Returned w'
     \<and> built_mesh world0 (Returned w') = Some m
     \<and> fetch ''topologies/mesh/elements/connectivity'' m = Some (Leaf (External INT64 v))
     \<and> data_ptr v = 0x2000 \<and> unat (num_elements v) = 1 * 4"
    by (elim exE conjE) (intro exI conjI, assumption+, simp_all)
  with h show ?thesis by simp
qed

text \<open>
  C4, as stated, for every snapshot: it fails.  With \<open>dimensions = 5\<close> the process exits
  with the code 1; the mesh description built so far has no field entry, and nothing was
  submitted.
\<close>

theorem no_fields_on_exit:
  "exit_code (do_catalyt_execute ok_pipeline 5 0 bad_snapshot world0) = Some 1
   \<and> map_option (child_names ''fields'')
       (built_mesh world0 (do_catalyt_execute ok_pipeline 5 0 bad_snapshot world0)) = Some []
   \<and> submitted (final (do_catalyt_execute ok_pipeline 5 0 bad_snapshot world0)) = []"
proof -
  have h: "dimensions bad_snapshot \<noteq> 2" "dimensions bad_snapshot \<noteq> 3"
    by (simp_all add: bad_snapshot_def quad_snapshot_def)
  have b: "built_mesh world0 (do_catalyt_execute ok_pipeline 5 0 bad_snapshot world0)
      = Some (partial_mesh_tree bad_snapshot)"
    by (rule built_mesh_invalid [OF h])
  have e: "exit_code (do_catalyt_execute ok_pipeline 5 0 bad_snapshot world0) = Some 1"
    by (simp add: execute_invalid [OF h] exit_code_def)
  have s: "submitted (final (do_catalyt_execute ok_pipeline 5 0 bad_snapshot world0)) = []"
    by (simp add: execute_invalid [OF h] two_nodes_def world0_def)
  show ?thesis
    unfolding b using e s by (simp add: shape_partial_mesh_tree)
qed

text \<open>
  C4, amended.  For every snapshot with \<open>dimensions\<close> 2 or 3 the mesh description has
  exactly the four field entries \<^verbatim>\<open>velx\<close>, \<^verbatim>\<open>vely\<close>, \<^verbatim>\<open>velz\<close> and \<^verbatim>\<open>pressure\<close>, in this order.
  Each has the entries association = \<^verbatim>\<open>element\<close>, topology = \<^verbatim>\<open>mesh\<close>, volume_dependent =
  \<^verbatim>\<open>false\<close> and values, an external float64 view of the corresponding array of the snapshot
  with exactly \<open>cellCount\<close> elements; element \<open>i\<close> of the view is the same bytes as element
  \<open>i\<close> of the array, and the simulation memory is the same after the call.
\<close>

theorem field_entries:
  assumes "dimensions d = 2 \<or> dimensions d = 3"
  shows "\<exists>w' m.
       do_catalyt_execute P c t d w = Returned w'
     \<and> built_mesh w (Returned w') = Some m
     \<and> child_names ''fields'' m = [''velx'', ''vely'', ''velz'', ''pressure'']
     \<and> (\<forall>(name, p) \<in> set [(''velx'', velx d), (''vely'', vely d), (''velz'', velz d),
                            (''pressure'', Pressure d)].
          \<exists>f v. fetch (''fields/'' @ name) m = Some f
            \<and> map fst (children f) = [''association'', ''topology'', ''volume_dependent'', ''values'']
            \<and> fetch ''association'' f = Some (Leaf (Char8_str ''element''))
            \<and> fetch ''topology'' f = Some (Leaf (Char8_str ''mesh''))
            \<and> fetch ''volume_dependent'' f = Some (Leaf (Char8_str ''false''))
            \<and> fetch ''values'' f = Some (Leaf (External FLOAT64 v))
            \<and> v = \<lparr>data_ptr = p, num_elements = ucast (NumberOfCells d), offset = 0, stride = 8,
                   element_bytes = 8, endianness_id = CONDUIT_ENDIANNESS_DEFAULT_ID\<rparr>
            \<and> unat (num_elements v) = unat (NumberOfCells d)
            \<and> (\<forall>i < unat (NumberOfCells d). view_element mem v i = c_double_at mem p i))
     \<and> memory w' = memory w"
proof -
  have e: "view_element mem
       \<lparr>data_ptr = p, num_elements = ucast (NumberOfCells d), offset = 0, stride = 8,
          element_bytes = 8, endianness_id = CONDUIT_ENDIANNESS_DEFAULT_ID\<rparr> i
     = c_double_at mem p i" for p i
    using dense_element [of mem p "NumberOfCells d" i] by (simp add: dense_def)
  show ?thesis
    by (simp add: execute_valid [OF assms] built_mesh_returned fields_mesh_tree field_tree_entries
        returned_fields unat_ucast_index e dense_def)
qed

theorem field_entries_witness:
  "(dimensions quad_snapshot = 2 \<or> dimensions quad_snapshot = 3)
   \<and> (\<exists>w' m f. do_catalyt_execute ok_pipeline 5 0 quad_snapshot world0 = Returned w'
     \<and> built_mesh world0 (Returned w') = Some m
     \<and> child_names ''fields'' m = [''velx'', ''vely'', ''velz'', ''pressure'']
     \<and> fetch ''fields/pressure'' m = Some f
     \<and> fetch ''values'' f = Some (Leaf (External FLOAT64
          \<lparr>data_ptr = 0x3300, num_elements = 1, offset = 0, stride = 8,
           element_bytes = 8, endianness_id = CONDUIT_ENDIANNESS_DEFAULT_ID\<rparr>)))"
proof -
  have h: "dimensions quad_snapshot = 2 \<or> dimensions quad_snapshot = 3"
    by (simp add: quad_snapshot_def)
  have q: "Pressure quad_snapshot = 0x3300" "NumberOfCells quad_snapshot = 1"
    by (simp_all add: quad_snapshot_def)
  from field_entries [OF h, of ok_pipeline 5 0 world0 "memory world0"] q
  have "\<exists>w' m f. do_catalyt_execute ok_pipeline 5 0 quad_snapshot world0 = Returned w'
     \<and> built_mesh world0 (Returned w') = Some m
     \<and> child_names ''fields'' m = [''velx'', ''vely'', ''velz'', ''pressure'']
     \<and> fetch ''fields/pressure'' m = Some f
     \<and> fetch ''values'' f = Some (Leaf (External FLOAT64
          \<lparr>data_ptr = 0x3300, num_elements = 1, offset = 0, stride = 8,
           element_bytes = 8, endianness_id = CONDUIT_ENDIANNESS_DEFAULT_ID\<rparr>))"
    by (elim exE conjE) fastforce
  with h show ?thesis by simp
qed

text \<open>
  C5.  A call with valid dimensions makes one submission to the execute entry point.  Its
  parameters hold the cycle, sign-extended to 64 bits, at \<^verbatim>\<open>catalyst/state/timestep\<close>, the
  time at \<^verbatim>\<open>catalyst/state/time\<close>, the string \<^verbatim>\<open>mesh\<close> at \<^verbatim>\<open>catalyst/channels/grid/type\<close>, and
  at \<^verbatim>\<open>catalyst/channels/grid/data\<close> a reference to the mesh description the call built
  (coordinate sets, topologies, fields).  A call with other dimensions submits nothing.
\<close>

theorem execution_parameters:
  "(dimensions d = 2 \<or> dimensions d = 3 \<longrightarrow>
      (\<exists>w' s p mh m.
          do_catalyt_execute P c t d w = Returned w'
        \<and> submitted w' = submitted w @ [s] \<and> entry s = Execute
        \<and> store s (params s) = Some p
        \<and> fetch ''catalyst/state/timestep'' p = Some (Leaf (Int64 (scast c)))
        \<and> sint (scast c :: conduit_int64) = sint c
        \<and> fetch ''catalyst/state/time'' p = Some (Leaf (Float64 t))
        \<and> fetch ''catalyst/channels/grid/type'' p = Some (Leaf (Char8_str ''mesh''))
        \<and> fetch ''catalyst/channels/grid/data'' p = Some (Leaf (External_node mh))
        \<and> store s mh = Some m
        \<and> built_mesh w (Returned w') = Some m
        \<and> map fst (children m) = [''coordsets'', ''topologies'', ''fields'']))
   \<and> (dimensions d \<noteq> 2 \<and> dimensions d \<noteq> 3 \<longrightarrow>
        submitted (final (do_catalyt_execute P c t d w)) = submitted w)"
proof (intro conjI impI)
  assume dims: "dimensions d = 2 \<or> dimensions d = 3"
  show "\<exists>w' s p mh m.
          do_catalyt_execute P c t d w = Returned w'
        \<and> submitted w' = submitted w @ [s] \<and> entry s = Execute
        \<and> store s (params s) = Some p
        \<and> fetch ''catalyst/state/timestep'' p = Some (Leaf (Int64 (scast c)))
        \<and> sint (scast c :: conduit_int64) = sint c
        \<and> fetch ''catalyst/state/time'' p = Some (Leaf (Float64 t))
        \<and> fetch ''catalyst/channels/grid/type'' p = Some (Leaf (Char8_str ''mesh''))
        \<and> fetch ''catalyst/channels/grid/data'' p = Some (Leaf (External_node mh))
        \<and> store s mh = Some m
        \<and> built_mesh w (Returned w') = Some m
        \<and> map fst (children m) = [''coordsets'', ''topologies'', ''fields'']"
    apply (rule exI [of _ "returned_world P w 2 (execute_submission w c t d) ''Failed to execute Catalyst: ''"])
    apply (rule exI [of _ "execute_submission w c t d"])
    apply (rule exI [of _ "exec_params_tree c t (Suc (fresh w))"])
    apply (rule exI [of _ "Suc (fresh w)"])
    apply (rule exI [of _ "mesh_tree d (shape_name d)"])
    apply (simp add: execute_valid [OF dims] returned_fields execute_submission_fields
        params_tree_entries sint_scast_cycle built_mesh_returned mesh_tree_children)
    done
next
  assume "dimensions d \<noteq> 2 \<and> dimensions d \<noteq> 3"
  then show "submitted (final (do_catalyt_execute P c t d w)) = submitted w"
    by (simp add: execute_invalid two_nodes_def)
qed

theorem execution_parameters_witness:
  "(dimensions quad_snapshot = 2 \<or> dimensions quad_snapshot = 3)
   \<and> dimensions bad_snapshot \<noteq> 2 \<and> dimensions bad_snapshot \<noteq> 3
   \<and> (\<exists>w' s p. do_catalyt_execute ok_pipeline 5 0x3F50624DD2F1A9FC quad_snapshot world0 = Returned w'
        \<and> submitted w' = [s] \<and> store s (params s) = Some p
        \<and> fetch ''catalyst/state/timestep'' p = Some (Leaf (Int64 5))
        \<and> fetch ''catalyst/state/time'' p = Some (Leaf (Float64 0x3F50624DD2F1A9FC)))
   \<and> submitted (final (do_catalyt_execute ok_pipeline 5 0x3F50624DD2F1A9FC bad_snapshot world0)) = []"
proof -
  have q: "dimensions quad_snapshot = 2"
    by (simp add: quad_snapshot_def)
  have h: "dimensions bad_snapshot \<noteq> 2 \<and> dimensions bad_snapshot \<noteq> 3"
    by (simp add: quad_snapshot_def bad_snapshot_def)
  have s: "submitted world0 = []" by (simp add: world0_def)
  from execution_parameters [of quad_snapshot ok_pipeline 5 "0x3F50624DD2F1A9FC" world0] q
  obtain w' s p where
    "do_catalyt_execute ok_pipeline 5 0x3F50624DD2F1A9FC quad_snapshot world0 = Returned w'"
    "submitted w' = submitted world0 @ [s]" "store s (params s) = Some p"
    "fetch ''catalyst/state/timestep'' p = Some (Leaf (Int64 5))"
    "fetch ''catalyst/state/time'' p = Some (Leaf (Float64 0x3F50624DD2F1A9FC))"
    by auto
  then have a: "\<exists>w' s p. do_catalyt_execute ok_pipeline 5 0x3F50624DD2F1A9FC quad_snapshot world0 = Returned w'
        \<and> submitted w' = [s] \<and> store s (params s) = Some p
        \<and> fetch ''catalyst/state/timestep'' p = Some (Leaf (Int64 5))
        \<and> fetch ''catalyst/state/time'' p = Some (Leaf (Float64 0x3F50624DD2F1A9FC))"
    using s by auto
  from execution_parameters [of bad_snapshot ok_pipeline 5 "0x3F50624DD2F1A9FC" world0] h s
  have b: "submitted (final (do_catalyt_execute ok_pipeline 5 0x3F50624DD2F1A9FC bad_snapshot world0)) = []"
    by simp
  from q h a b show ?thesis by simp
qed

text \<open>
  C6.  The initializer, the executor with valid dimensions, and the finalizer always
  return.  Each makes one submission, compares the status the pipeline answered with
  \<^verbatim>\<open>catalyst_status_ok\<close>, and prints, when it differs, one line that holds the status as a
  decimal number, and nothing otherwise.
\<close>

theorem status_is_reported:
  "(\<exists>w'. do_catalyst_initialization P w = Returned w'
       \<and> length (submitted w') = Suc (length (submitted w))
       \<and> stdout w' = stdout w @
           (if respond P (submitted w') \<noteq> catalyst_status_ok P
            then ''Failed to initialize Catalyst: '' @ show_int (sint (respond P (submitted w'))) @ newline
            else []))
   \<and> (dimensions d = 2 \<or> dimensions d = 3 \<longrightarrow>
       (\<exists>w'. do_catalyt_execute P c t d w = Returned w'
       \<and> length (submitted w') = Suc (length (submitted w))
       \<and> stdout w' = stdout w @
           (if respond P (submitted w') \<noteq> catalyst_status_ok P
            then ''Failed to execute Catalyst: '' @ show_int (sint (respond P (submitted w'))) @ newline
            else [])))
   \<and> (\<exists>w'. do_catalyt_finalization P w = Returned w'
       \<and> length (submitted w') = Suc (length (submitted w))
       \<and> stdout w' = stdout w @
           (if respond P (submitted w') \<noteq> catalyst_status_ok P
            then ''Failed to execute Catalyst: '' @ show_int (sint (respond P (submitted w'))) @ newline
            else []))"
  by (simp add: initialization_returns finalization_returns execute_valid returned_fields
      diagnostic_def)

theorem status_is_reported_witness:
  "(dimensions quad_snapshot = 2 \<or> dimensions quad_snapshot = 3)
   \<and> respond failing_pipeline [] \<noteq> catalyst_status_ok failing_pipeline
   \<and> (\<exists>w'. do_catalyst_initialization failing_pipeline world0 = Returned w'
        \<and> stdout w' = ''Failed to initialize Catalyst: 3'' @ newline)
   \<and> (\<exists>w'. do_catalyt_execute failing_pipeline 5 0 quad_snapshot world0 = Returned w'
        \<and> stdout w' = ''Failed to execute Catalyst: 3'' @ newline)
   \<and> (\<exists>w'. do_catalyt_finalization failing_pipeline world0 = Returned w'
        \<and> stdout w' = ''Failed to execute Catalyst: 3'' @ newline)"
proof -
  have h: "dimensions quad_snapshot = 2 \<or> dimensions quad_snapshot = 3"
    by (simp add: quad_snapshot_def)
  have r: "respond failing_pipeline tr = 3" "catalyst_status_ok failing_pipeline = 0" for tr
    by (simp_all add: failing_pipeline_def)
  have s: "stdout world0 = []" by (simp add: world0_def)
  from status_is_reported [of failing_pipeline world0 quad_snapshot 5 0] h
  show ?thesis
    by (auto simp add: r s show_int_3)
qed

text \<open>
  C7.  A call with valid dimensions, started where no handle still to be handed out is
  live, returns with both nodes it created destroyed, whatever status the pipeline
  answered: the two nodes were live when they were submitted and are not live after the
  call, the node store is the one before the call, and the simulation memory and the set
  of blocks the simulation owns are unchanged.
\<close>

theorem transient_nodes_destroyed:
  assumes "wf_world w" and "dimensions d = 2 \<or> dimensions d = 3"
  shows "\<exists>w'. do_catalyt_execute P c t d w = Returned w'
     \<and> store (last (submitted w')) (fresh w) \<noteq> None
     \<and> store (last (submitted w')) (Suc (fresh w)) \<noteq> None
     \<and> nodes w' (fresh w) = None \<and> nodes w' (Suc (fresh w)) = None
     \<and> nodes w' = nodes w \<and> wf_world w'
     \<and> memory w' = memory w \<and> allocated w' = allocated w"
  using assms(1)
  by (simp add: execute_valid [OF assms(2)] returned_fields execute_submission_fields
      nodes_returned_wf wf_returned wf_fresh_free)

theorem transient_nodes_destroyed_witness:
  "wf_world world0 \<and> (dimensions quad_snapshot = 2 \<or> dimensions quad_snapshot = 3)
   \<and> (\<exists>w'. do_catalyt_execute failing_pipeline 5 0 quad_snapshot world0 = Returned w'
        \<and> nodes w' = (\<lambda>h. None) \<and> memory w' = memory world0
        \<and> allocated w' = {0x1000, 0x2000, 0x3000, 0x3100, 0x3200, 0x3300})"
proof -
  have h: "wf_world world0" "dimensions quad_snapshot = 2 \<or> dimensions quad_snapshot = 3"
    by (simp_all add: wf_world_def world0_def quad_snapshot_def)
  have n: "nodes world0 = (\<lambda>h. None)"
    "allocated world0 = {0x1000, 0x2000, 0x3000, 0x3100, 0x3200, 0x3300}"
    by (simp_all add: world0_def)
  from transient_nodes_destroyed [OF h, of failing_pipeline 5 0] n h
  show ?thesis by auto
qed

text \<open>
  C8.  The initializer submits to the initialization entry point a node with exactly
  three leaves, all strings: the script path at \<^verbatim>\<open>catalyst/scripts/script0\<close>, the name of
  the implementation at \<^verbatim>\<open>catalyst_load/implementation\<close>, and the install path at
  \<^verbatim>\<open>catalyst_load/search_paths/\<close> followed by that same name.  The node is destroyed
  when the call returns.
\<close>

theorem initializer_configuration:
  "\<exists>w' s p impl.
       do_catalyst_initialization P w = Returned w'
     \<and> submitted w' = submitted w @ [s] \<and> entry s = Initialize
     \<and> store s (params s) = Some p
     \<and> leaves p =
         [([''catalyst'', ''scripts'', ''script0''], Char8_str ''catalyst_pipeline.py''),
          ([''catalyst_load'', ''implementation''], Char8_str impl),
          ([''catalyst_load'', ''search_paths'', impl],
           Char8_str ''/home/uqngibbo/source/ParaView/build/lib/catalyst'')]
     \<and> fetch ''catalyst/scripts/script0'' p = Some (Leaf (Char8_str ''catalyst_pipeline.py''))
     \<and> fetch ''catalyst_load/implementation'' p = Some (Leaf (Char8_str impl))
     \<and> fetch (''catalyst_load/search_paths/'' @ impl) p
         = Some (Leaf (Char8_str ''/home/uqngibbo/source/ParaView/build/lib/catalyst''))
     \<and> impl = ''paraview''
     \<and> nodes w' (params s) = None"
  apply (rule exI [of _ "returned_world P w 1 (initialize_submission w) ''Failed to initialize Catalyst: ''"])
  apply (rule exI [of _ "initialize_submission w"])
  apply (rule exI [of _ init_params_tree])
  apply (rule exI [of _ "''paraview''"])
  apply (simp only: initialization_returns returned_fields initialize_submission_fields
      init_tree_entries)
  apply simp
  done

text \<open>
  C9.  The three counts of a snapshot are unsigned 32-bit values, so none exceeds
  \<open>2\<^sup>3\<^sup>2 - 1\<close>.  The length of every view of the mesh description is one of the three
  counts, zero-extended, and so does not exceed \<open>2\<^sup>3\<^sup>2 - 1\<close> either; with valid
  dimensions the mesh description has eight views and the parameters around it none.
\<close>

theorem counts_are_32_bit:
  "unat (NumberOfPoints d) \<le> 2 ^ 32 - 1
   \<and> unat (NumberOfCells d) \<le> 2 ^ 32 - 1
   \<and> unat (Cell2VertexSize d) \<le> 2 ^ 32 - 1
   \<and> (\<exists>m. built_mesh w (do_catalyt_execute P c t d w) = Some m
        \<and> (\<forall>v \<in> set (views m).
              (num_elements v = ucast (NumberOfPoints d)
               \<or> num_elements v = ucast (NumberOfCells d)
               \<or> num_elements v = ucast (Cell2VertexSize d))
            \<and> unat (num_elements v) \<le> 2 ^ 32 - 1))
   \<and> (dimensions d = 2 \<or> dimensions d = 3 \<longrightarrow>
        (\<exists>w' m p. do_catalyt_execute P c t d w = Returned w'
           \<and> built_mesh w (Returned w') = Some m \<and> length (views m) = 8
           \<and> store (last (submitted w')) (params (last (submitted w'))) = Some p
           \<and> views p = []))"
proof (intro conjI impI)
  show "unat (NumberOfPoints d) \<le> 2 ^ 32 - 1" "unat (NumberOfCells d) \<le> 2 ^ 32 - 1"
    "unat (Cell2VertexSize d) \<le> 2 ^ 32 - 1"
    by (rule count_le)+
next
  have b: "unat (ucast n :: conduit_index_t) \<le> 2 ^ 32 - 1" for n :: c_uint
    using count_le [of n] by (simp only: unat_ucast_index)
  show "\<exists>m. built_mesh w (do_catalyt_execute P c t d w) = Some m
        \<and> (\<forall>v \<in> set (views m).
              (num_elements v = ucast (NumberOfPoints d)
               \<or> num_elements v = ucast (NumberOfCells d)
               \<or> num_elements v = ucast (Cell2VertexSize d))
            \<and> unat (num_elements v) \<le> 2 ^ 32 - 1)"
  proof (cases "dimensions d = 2 \<or> dimensions d = 3")
    case True
    show ?thesis
      using b [of "NumberOfPoints d"] b [of "NumberOfCells d"] b [of "Cell2VertexSize d"]
      by (simp add: built_mesh_valid [OF True] views_mesh_tree view_lengths)
  next
    case False
    then have n: "dimensions d \<noteq> 2" "dimensions d \<noteq> 3" by simp_all
    show ?thesis
      using b [of "NumberOfPoints d"]
      by (simp add: built_mesh_invalid [OF n] views_partial_mesh_tree view_lengths)
  qed
next
  assume dims: "dimensions d = 2 \<or> dimensions d = 3"
  show "\<exists>w' m p. do_catalyt_execute P c t d w = Returned w'
           \<and> built_mesh w (Returned w') = Some m \<and> length (views m) = 8
           \<and> store (last (submitted w')) (params (last (submitted w'))) = Some p
           \<and> views p = []"
    by (simp add: execute_valid [OF dims] built_mesh_returned views_mesh_tree returned_fields
        execute_submission_fields params_tree_entries)
qed

theorem counts_are_32_bit_witness:
  "(dimensions quad_snapshot = 2 \<or> dimensions quad_snapshot = 3)
   \<and> (\<exists>w' m. do_catalyt_execute ok_pipeline 5 0 quad_snapshot world0 = Returned w'
        \<and> built_mesh world0 (Returned w') = Some m \<and> length (views m) = 8
        \<and> (\<forall>v \<in> set (views m). num_elements v = 4 \<or> num_elements v = 1))"
proof -
  have h: "dimensions quad_snapshot = 2 \<or> dimensions quad_snapshot = 3"
    by (simp add: quad_snapshot_def)
  have q: "(ucast (NumberOfPoints quad_snapshot) :: conduit_index_t) = 4"
    "(ucast (NumberOfCells quad_snapshot) :: conduit_index_t) = 1"
    "(ucast (Cell2VertexSize quad_snapshot) :: conduit_index_t) = 4"
    by (simp_all add: quad_snapshot_def)
  from counts_are_32_bit [of quad_snapshot world0 ok_pipeline 5 0] h
  obtain w' m m' where
    r: "do_catalyt_execute ok_pipeline 5 0 quad_snapshot world0 = Returned w'"
      "built_mesh world0 (Returned w') = Some m" "length (views m) = 8"
    and a: "built_mesh world0 (do_catalyt_execute ok_pipeline 5 0 quad_snapshot world0) = Some m'"
      "\<forall>v \<in> set (views m').
              (num_elements v = ucast (NumberOfPoints quad_snapshot)
               \<or> num_elements v = ucast (NumberOfCells quad_snapshot)
               \<or> num_elements v = ucast (Cell2VertexSize quad_snapshot))
            \<and> unat (num_elements v) \<le> 2 ^ 32 - 1"
    by auto
  from r a(1) have "m' = m" by simp
  with a(2) q have "\<forall>v \<in> set (views m). num_elements v = 4 \<or> num_elements v = 1"
    by auto
  with h r show ?thesis by auto
qed

text \<open>
  C10.  The builder writes \<^verbatim>\<open>explicit\<close> to \<^verbatim>\<open>coordsets/coords/type\<close> twice.  A call has
  the same outcome, world and submission included, as the call that writes it once; and
  in any world, on any node, the second of the two writes changes nothing.
\<close>

theorem duplicate_write_idempotent:
  "do_catalyt_execute P c t d w = do_catalyt_execute_single_write P c t d w
   \<and> conduit_node_set_path_char8_str h ''coordsets/coords/type'' ''explicit''
       (conduit_node_set_path_char8_str h ''coordsets/coords/type'' ''explicit'' w)
     = conduit_node_set_path_char8_str h ''coordsets/coords/type'' ''explicit'' w"
proof (rule conjI)
  show "do_catalyt_execute P c t d w = do_catalyt_execute_single_write P c t d w"
  proof (cases "dimensions d = 2 \<or> dimensions d = 3")
    case True
    then show ?thesis by (simp only: execute_valid single_write_valid)
  next
    case False
    then have n: "dimensions d \<noteq> 2" "dimensions d \<noteq> 3" by simp_all
    show ?thesis by (simp only: execute_invalid [OF n] single_write_invalid [OF n])
  qed
next
  show "conduit_node_set_path_char8_str h ''coordsets/coords/type'' ''explicit''
       (conduit_node_set_path_char8_str h ''coordsets/coords/type'' ''explicit'' w)
     = conduit_node_set_path_char8_str h ''coordsets/coords/type'' ''explicit'' w"
    by (simp only: conduit_node_set_path_char8_str_def set_path_idem)
qed

end
